theory Spec2Isabelle
  imports Complex_Main
begin

section \<open>Strings\<close>

text \<open>
  Source strings are modelled as \<^typ>\<open>string\<close>: a character is one of the 256 code units
  of the Latin-1 range of a JavaScript string. Both schema languages are written in ASCII;
  every character test below is the restriction of the JavaScript test to that range.
\<close>

definition is_word_char :: "char \<Rightarrow> bool" where
  \<comment> \<open>the class \<open>\w\<close>: letters, digits and the underscore\<close>
  "is_word_char c =
     (let n = (of_char c :: nat)
      in (97 \<le> n \<and> n \<le> 122) \<or> (65 \<le> n \<and> n \<le> 90) \<or> (48 \<le> n \<and> n \<le> 57) \<or> n = 95)"

definition is_space_char :: "char \<Rightarrow> bool" where
  \<comment> \<open>the class \<open>\s\<close> (white space and line terminators): tab, LF, VT, FF, CR, space, NBSP\<close>
  "is_space_char c =
     (let n = (of_char c :: nat) in (9 \<le> n \<and> n \<le> 13) \<or> n = 32 \<or> n = 160)"

definition is_line_terminator :: "char \<Rightarrow> bool" where
  "is_line_terminator c = (let n = (of_char c :: nat) in n = 10 \<or> n = 13)"

definition toLowerChar :: "char \<Rightarrow> char" where
  "toLowerChar c =
     (let n = (of_char c :: nat)
      in if (65 \<le> n \<and> n \<le> 90) \<or> (192 \<le> n \<and> n \<le> 222 \<and> n \<noteq> 215)
         then char_of (n + 32) else c)"

definition toLowerCase :: "string \<Rightarrow> string" where
  "toLowerCase s = map toLowerChar s"

definition trim :: "string \<Rightarrow> string" where
  "trim s = rev (dropWhile is_space_char (rev (dropWhile is_space_char s)))"

definition startsWith :: "string \<Rightarrow> string \<Rightarrow> bool" where
  "startsWith s p = (take (length p) s = p)"

definition endsWith :: "string \<Rightarrow> string \<Rightarrow> bool" where
  "endsWith s p = (length p \<le> length s \<and> drop (length s - length p) s = p)"

fun str_includes :: "string \<Rightarrow> string \<Rightarrow> bool" where
  "str_includes [] p = (p = [])"
| "str_includes (c # cs) p = (startsWith (c # cs) p \<or> str_includes cs p)"

text \<open>\<open>s.split(c)\<close> for a one-character separator: never an empty array.\<close>

fun split_aux :: "char \<Rightarrow> string \<Rightarrow> string \<Rightarrow> string list" where
  "split_aux sep cur [] = [rev cur]"
| "split_aux sep cur (c # cs) =
     (if c = sep then rev cur # split_aux sep [] cs else split_aux sep (c # cur) cs)"

definition split :: "string \<Rightarrow> char \<Rightarrow> string list" where
  "split s sep = split_aux sep [] s"

text \<open>\<open>s.split(/\s+/)\<close>: the pieces between maximal runs of white space.\<close>

fun split_ws_aux :: "bool \<Rightarrow> string \<Rightarrow> string \<Rightarrow> string list" where
  "split_ws_aux insep cur [] = [rev cur]"
| "split_ws_aux insep cur (c # cs) =
     (if is_space_char c
      then (if insep then split_ws_aux True cur cs else rev cur # split_ws_aux True [] cs)
      else split_ws_aux False (c # cur) cs)"

definition split_ws :: "string \<Rightarrow> string list" where
  "split_ws s = split_ws_aux False [] s"

text \<open>\<open>s.replace(/['"]/g, '')\<close>\<close>

definition strip_quotes :: "string \<Rightarrow> string" where
  "strip_quotes s = filter (\<lambda>c. c \<noteq> CHR 0x27 \<and> c \<noteq> CHR 0x22) s"

text \<open>\<open>xs.join(sep)\<close>\<close>

fun join :: "string \<Rightarrow> string list \<Rightarrow> string" where
  "join sep [] = []"
| "join sep [x] = x"
| "join sep (x # y # ys) = x @ sep @ join sep (y # ys)"


section \<open>Regular expressions\<close>

text \<open>
  The parsers scan text with JavaScript regular expressions. They are modelled by a small
  backtracking matcher with JavaScript's priorities: each regular expression of the source
  is written down as a value of \<open>rx\<close>, construct for construct. Repetition is only needed
  over character classes.
\<close>

datatype cls =
    Word                  \<comment> \<open>\<open>\w\<close>\<close>
  | Space                 \<comment> \<open>\<open>\s\<close>\<close>
  | Dot                   \<comment> \<open>\<open>.\<close> (no line terminator)\<close>
  | Chars string          \<comment> \<open>the listed characters\<close>
  | Union cls cls         \<comment> \<open>\<open>[ab]\<close>\<close>
  | Neg cls               \<comment> \<open>\<open>[^a]\<close>, \<open>\S\<close>\<close>

fun cls_mem :: "cls \<Rightarrow> char \<Rightarrow> bool" where
  "cls_mem Word c = is_word_char c"
| "cls_mem Space c = is_space_char c"
| "cls_mem Dot c = (\<not> is_line_terminator c)"
| "cls_mem (Chars cs) c = (c \<in> set cs)"
| "cls_mem (Union a b) c = (cls_mem a c \<or> cls_mem b c)"
| "cls_mem (Neg a) c = (\<not> cls_mem a c)"

datatype rx =
    Lit string            \<comment> \<open>a literal character sequence\<close>
  | One cls               \<comment> \<open>one character of a class\<close>
  | Star cls              \<comment> \<open>\<open>c*\<close>, greedy\<close>
  | Plus cls              \<comment> \<open>\<open>c+\<close>, greedy\<close>
  | StarLazy cls          \<comment> \<open>\<open>c*?\<close>\<close>
  | Group nat rx          \<comment> \<open>capturing group number n\<close>
  | Seq rx rx
  | Alt rx rx             \<comment> \<open>\<open>a|b\<close>\<close>
  | Opt rx                \<comment> \<open>\<open>(?:a)?\<close>, greedy\<close>
  | Bol                   \<comment> \<open>\<open>^\<close> without the m flag\<close>
  | Eol                   \<comment> \<open>\<open>$\<close> without the m flag\<close>
  | EolM                  \<comment> \<open>\<open>$\<close> with the m flag\<close>

text \<open>A matcher state: the index reached, the input left, the captures made so far.\<close>

type_synonym mstate = "nat \<times> string \<times> (nat \<times> string) list"

text \<open>
  \<open>rx_run r st\<close> lists every way \<open>r\<close> can match at \<open>st\<close>, in the order in which the
  backtracking matcher tries them; the head is the match JavaScript reports.
\<close>

fun rx_run :: "rx \<Rightarrow> mstate \<Rightarrow> mstate list" where
  "rx_run (Lit l) (pos, rest, caps) =
     (if startsWith rest l then [(pos + length l, drop (length l) rest, caps)] else [])"
| "rx_run (One c) (pos, rest, caps) =
     (case rest of [] \<Rightarrow> [] | x # xs \<Rightarrow> if cls_mem c x then [(pos + 1, xs, caps)] else [])"
| "rx_run (Star c) (pos, rest, caps) =
     map (\<lambda>k. (pos + k, drop k rest, caps)) (rev [0 ..< length (takeWhile (cls_mem c) rest) + 1])"
| "rx_run (Plus c) (pos, rest, caps) =
     map (\<lambda>k. (pos + k, drop k rest, caps)) (rev [1 ..< length (takeWhile (cls_mem c) rest) + 1])"
| "rx_run (StarLazy c) (pos, rest, caps) =
     map (\<lambda>k. (pos + k, drop k rest, caps)) [0 ..< length (takeWhile (cls_mem c) rest) + 1]"
| "rx_run (Group n r) (pos, rest, caps) =
     map (\<lambda>(pos', rest', caps'). (pos', rest', (n, take (pos' - pos) rest) # caps'))
         (rx_run r (pos, rest, caps))"
| "rx_run (Seq a b) st = concat (map (rx_run b) (rx_run a st))"
| "rx_run (Alt a b) st = rx_run a st @ rx_run b st"
| "rx_run (Opt r) st = rx_run r st @ [st]"
| "rx_run Bol (pos, rest, caps) = (if pos = 0 then [(pos, rest, caps)] else [])"
| "rx_run Eol (pos, rest, caps) = (if rest = [] then [(pos, rest, caps)] else [])"
| "rx_run EolM (pos, rest, caps) =
     (case rest of [] \<Rightarrow> [(pos, rest, caps)]
      | x # xs \<Rightarrow> if is_line_terminator x then [(pos, rest, caps)] else [])"

fun seqs :: "rx list \<Rightarrow> rx" where
  "seqs [] = Lit []"
| "seqs [r] = r"
| "seqs (r # rs) = Seq r (seqs rs)"

text \<open>
  A match: the number of characters matched and the captured groups; a group that took
  no part in the match is \<open>undefined\<close> in JavaScript and \<open>None\<close> here.
\<close>

type_synonym rmatch = "nat \<times> (nat \<times> string) list"

definition grp :: "rmatch \<Rightarrow> nat \<Rightarrow> string option" where
  "grp m n = map_of (snd m) n"

text \<open>The match at one position of the input, if there is one.\<close>

definition rx_at :: "rx \<Rightarrow> nat \<Rightarrow> string \<Rightarrow> rmatch option" where
  "rx_at r pos s =
     (case rx_run r (pos, s, []) of [] \<Rightarrow> None
      | (pos', rest', caps) # _ \<Rightarrow> Some (pos' - pos, caps))"

text \<open>\<open>s.match(r)\<close> for a regular expression without the g flag: the leftmost match.\<close>

fun rx_search :: "rx \<Rightarrow> nat \<Rightarrow> string \<Rightarrow> rmatch option" where
  "rx_search r pos [] = rx_at r pos []"
| "rx_search r pos (c # cs) =
     (case rx_at r pos (c # cs) of Some m \<Rightarrow> Some m | None \<Rightarrow> rx_search r (Suc pos) cs)"

definition rx_match :: "rx \<Rightarrow> string \<Rightarrow> rmatch option" where
  "rx_match r s = rx_search r 0 s"

text \<open>
  The loop \<open>while ((m = r.exec(s)) !== null)\<close> of a regular expression with the g flag: all
  matches from left to right, each search starting where the last match ended. \<open>skip\<close>
  counts the characters of the last match still to pass. (No regular expression of the
  source that is run this way matches the empty string.)
\<close>

fun rx_scan :: "rx \<Rightarrow> nat \<Rightarrow> nat \<Rightarrow> string \<Rightarrow> rmatch list" where
  "rx_scan r pos skip [] = (if skip > 0 then [] else (case rx_at r pos [] of None \<Rightarrow> [] | Some m \<Rightarrow> [m]))"
| "rx_scan r pos skip (c # cs) =
     (if skip > 0 then rx_scan r (Suc pos) (skip - 1) cs
      else (case rx_at r pos (c # cs) of
              None \<Rightarrow> rx_scan r (Suc pos) 0 cs
            | Some m \<Rightarrow> m # rx_scan r (Suc pos) (fst m - 1) cs))"

definition rx_exec_all :: "rx \<Rightarrow> string \<Rightarrow> rmatch list" where
  "rx_exec_all r s = rx_scan r 0 0 s"

text \<open>\<open>s.replace(r, '')\<close> for a regular expression with the g flag.\<close>

fun rx_delete :: "rx \<Rightarrow> nat \<Rightarrow> nat \<Rightarrow> string \<Rightarrow> string" where
  "rx_delete r pos skip [] = []"
| "rx_delete r pos skip (c # cs) =
     (if skip > 0 then rx_delete r (Suc pos) (skip - 1) cs
      else (case rx_at r pos (c # cs) of
              None \<Rightarrow> c # rx_delete r (Suc pos) 0 cs
            | Some m \<Rightarrow> if fst m = 0 then c # rx_delete r (Suc pos) 0 cs
                        else rx_delete r (Suc pos) (fst m - 1) cs))"

definition rx_remove_all :: "rx \<Rightarrow> string \<Rightarrow> string" where
  "rx_remove_all r s = rx_delete r 0 0 s"

text \<open>A group that stands outside every optional part takes part in every match.\<close>

definition grp_str :: "rmatch \<Rightarrow> nat \<Rightarrow> string" where
  "grp_str m n = (case grp m n of None \<Rightarrow> [] | Some s \<Rightarrow> s)"

text \<open>The decimal numeral of a natural number, as a template literal prints it.\<close>

fun show_nat :: "nat \<Rightarrow> string" where
  "show_nat n =
     (if n < 10 then [''0123456789'' ! n]
      else show_nat (n div 10) @ [''0123456789'' ! (n mod 10)])"


section \<open>Objects used as dictionaries\<close>

text \<open>
  The type dictionaries and the table of shared schemas are plain JavaScript objects
  indexed by a name. Such a lookup finds the object's own entries and, for the names below,
  the members every object inherits from \<open>Object.prototype\<close>: functions, and for
  \<open>__proto__\<close> the prototype object itself. All of them count as true in a condition.
\<close>

definition inheritedNames :: "string list" where
  "inheritedNames =
     [''constructor'', ''__defineGetter__'', ''__defineSetter__'', ''hasOwnProperty'',
      ''__lookupGetter__'', ''__lookupSetter__'', ''isPrototypeOf'', ''propertyIsEnumerable'',
      ''toString'', ''valueOf'', ''__proto__'', ''toLocaleString'']"

datatype 'a member = Own 'a | Inherited string | Undefined

definition js_get :: "(string \<times> 'a) list \<Rightarrow> string \<Rightarrow> 'a member" where
  \<comment> \<open>\<open>object[name]\<close>\<close>
  "js_get object name =
     (case map_of object name of
        Some v \<Rightarrow> Own v
      | None \<Rightarrow> if name \<in> set inheritedNames then Inherited name else Undefined)"

definition member_string :: "string \<Rightarrow> string" where
  \<comment> \<open>\<open>String(Object.prototype[name])\<close>, as V8 prints it\<close>
  "member_string name =
     (if name = ''__proto__'' then ''[object Object]''
      else if name = ''constructor'' then ''function Object() { [native code] }''
      else ''function '' @ name @ ''() { [native code] }'')"


section \<open>The normalized model (types/drizzle.ts)\<close>

record reference =
  ref_table :: string
  ref_column :: string

text \<open>
  The type of a column is declared a string. The block-dialect parsers can store the value
  of a dictionary lookup in it as it is, so at run time it is a string or an inherited
  member of the dictionary.
\<close>

datatype typeval = TypeName string | InheritedMember string

definition typeval_string :: "typeval \<Rightarrow> string" where
  \<comment> \<open>\<open>String(type)\<close>\<close>
  "typeval_string t = (case t of TypeName s \<Rightarrow> s | InheritedMember n \<Rightarrow> member_string n)"

record ParsedColumn =
  col_name :: string
  col_type :: typeval
  isPrimaryKey :: bool
  isUnique :: bool
  isNotNull :: bool
  col_references :: "reference option"
  defaultValue :: "string option"

record ParsedIndex =
  idx_name :: string
  idx_columns :: "string list"
  idx_isUnique :: bool

record ParsedEnum =
  enum_name :: string
  enum_values :: "string list"

record position =
  pos_x :: real
  pos_y :: real

record ParsedTable =
  tbl_id :: string
  tbl_name :: string
  tbl_columns :: "ParsedColumn list"
  tbl_indexes :: "ParsedIndex list"
  tbl_position :: position

record ParsedRelationship =
  rel_id :: string
  rel_source :: string
  rel_target :: string
  sourceColumn :: string
  targetColumn :: string

record ParsedSchema =
  tables :: "ParsedTable list"
  relationships :: "ParsedRelationship list"
  enums :: "ParsedEnum list"

text \<open>
  \<open>ParseResult\<close> is built in two shapes only: \<open>{success: true, data}\<close> and
  \<open>{success: false, error}\<close>.
\<close>

datatype ParseResult = Success ParsedSchema | Failure string


section \<open>Shared utilities (drizzle-utils)\<close>

text \<open>
  \<open>Math.random()\<close> is the only source of nondeterminism. The parsers call
  \<open>generateTablePosition\<close> once for each table they emit, with the number of tables emitted
  before as index; \<open>rnd i\<close> is the number drawn by call \<open>i\<close>. No parser passes
  \<open>customSpacing\<close>, so the two spacings are the constants 250 and 200.
\<close>

definition generateTablePosition :: "(nat \<Rightarrow> real) \<Rightarrow> nat \<Rightarrow> position" where
  "generateTablePosition rnd index =
     \<lparr> pos_x = 50 + real index * 250 + (rnd index * 100 - 50),
       pos_y = 50 + real (index div 3) * 200 \<rparr>"

definition generateRelationshipId :: "string \<Rightarrow> string \<Rightarrow> string \<Rightarrow> string" where
  "generateRelationshipId sourceTable sourceCol targetTable =
     ''rel-'' @ sourceTable @ ''-'' @ sourceCol @ ''-'' @ targetTable"

definition parseColumnModifiers :: "string \<Rightarrow> bool \<times> bool \<times> bool \<times> bool" where
  \<comment> \<open>isPrimaryKey, isUnique, isNotNull, hasDefault\<close>
  "parseColumnModifiers modifiers =
     (str_includes modifiers ''primaryKey()'',
      str_includes modifiers ''unique()'',
      str_includes modifiers ''notNull()'',
      str_includes modifiers ''default('' \<or> str_includes modifiers ''defaultNow('')"

definition referencesRegex :: rx where
  \<comment> \<open>\<open>/\.references\(\(\)\s*=>\s*(\w+)\.(\w+)\)/\<close>\<close>
  "referencesRegex =
     seqs [Lit ''.references(()'', Star Space, Lit ''=>'', Star Space,
           Group 1 (Plus Word), Lit ''.'', Group 2 (Plus Word), Lit '')'']"

definition extractReferences :: "string \<Rightarrow> reference option" where
  "extractReferences modifiers =
     (case rx_match referencesRegex modifiers of
        None \<Rightarrow> None
      | Some m \<Rightarrow> Some \<lparr> ref_table = grp_str m 1, ref_column = grp_str m 2 \<rparr>)"

definition blockCommentRegex :: rx where
  \<comment> \<open>\<open>/\/\*[\s\S]*?\*\//g\<close>\<close>
  "blockCommentRegex = seqs [Lit ''/*'', StarLazy (Union Space (Neg Space)), Lit ''*/'']"

definition lineCommentRegex :: rx where
  \<comment> \<open>\<open>/\/\/.*$/gm\<close>\<close>
  "lineCommentRegex = seqs [Lit ''//'', Star Dot, EolM]"

text \<open>The cleaning both structural parsers start with.\<close>

definition cleanCode :: "string \<Rightarrow> string" where
  "cleanCode schemaCode =
     trim (rx_remove_all lineCommentRegex (rx_remove_all blockCommentRegex schemaCode))"


section \<open>The block-dialect parser (prisma-parser)\<close>

definition PRISMA_TYPE_MAPPING :: "(string \<times> string) list" where
  "PRISMA_TYPE_MAPPING =
     [(''String'', ''text''),
      (''Int'', ''integer''),
      (''BigInt'', ''bigint''),
      (''Float'', ''double precision''),
      (''Decimal'', ''numeric''),
      (''Boolean'', ''boolean''),
      (''DateTime'', ''timestamp''),
      (''Json'', ''jsonb''),
      (''Bytes'', ''bytea'')]"

record PrismaFieldAttribute =
  attr_name :: string
  attr_args :: "string list"

record PrismaField =
  fld_name :: string
  fld_type :: string
  fld_isArray :: bool
  fld_isOptional :: bool
  fld_attributes :: "PrismaFieldAttribute list"

text \<open>\<open>PrismaModelAttribute\<close> has the fields of \<open>PrismaFieldAttribute\<close>, and \<open>PrismaEnum\<close>
  those of \<open>ParsedEnum\<close>: the source pushes the one where the other is expected.\<close>

record PrismaModel =
  mdl_name :: string
  mdl_fields :: "PrismaField list"
  mdl_indexes :: "ParsedIndex list"
  mdl_attributes :: "PrismaFieldAttribute list"

definition enumRegex :: rx where
  \<comment> \<open>\<open>/enum\s+(\w+)\s*\{([^}]+)\}/g\<close>\<close>
  "enumRegex =
     seqs [Lit ''enum'', Plus Space, Group 1 (Plus Word), Star Space, Lit ''{'',
           Group 2 (Plus (Neg (Chars ''}''))), Lit ''}'']"

definition parseEnums :: "string \<Rightarrow> ParsedEnum list" where
  "parseEnums schemaCode =
     map (\<lambda>m. \<lparr> enum_name = grp_str m 1,
                enum_values = filter (\<lambda>v. v \<noteq> [] \<and> \<not> startsWith v ''//'')
                                (map trim (split_ws (grp_str m 2))) \<rparr>)
         (rx_exec_all enumRegex schemaCode)"

text \<open>\<open>parseAttributeArgs\<close>: the state of its character loop.\<close>

record args_state =
  as_args :: "string list"
  as_current :: string
  as_depth :: int
  as_inString :: bool
  as_stringChar :: "char option"
  as_prev :: "char option"   \<comment> \<open>\<open>argsStr[i - 1]\<close>; \<open>None\<close> at \<open>i = 0\<close>\<close>

definition args_step :: "args_state \<Rightarrow> char \<Rightarrow> args_state" where
  "args_step st c =
     (let st' = st\<lparr> as_prev := Some c \<rparr>
      in if (c = CHR 0x22 \<or> c = CHR 0x27) \<and> as_prev st \<noteq> Some (CHR 0x5C)
         then (if \<not> as_inString st
               then st'\<lparr> as_inString := True, as_stringChar := Some c,
                        as_current := as_current st @ [c] \<rparr>
               else if Some c = as_stringChar st
               then st'\<lparr> as_inString := False, as_current := as_current st @ [c] \<rparr>
               else st'\<lparr> as_current := as_current st @ [c] \<rparr>)
         else if as_inString st then st'\<lparr> as_current := as_current st @ [c] \<rparr>
         else if c = CHR ''('' \<or> c = CHR ''[''
         then st'\<lparr> as_depth := as_depth st + 1, as_current := as_current st @ [c] \<rparr>
         else if c = CHR '')'' \<or> c = CHR '']''
         then st'\<lparr> as_depth := as_depth st - 1, as_current := as_current st @ [c] \<rparr>
         else if c = CHR '','' \<and> as_depth st = 0
         then st'\<lparr> as_args := (if trim (as_current st) \<noteq> []
                                  then as_args st @ [trim (as_current st)] else as_args st),
                      as_current := [] \<rparr>
         else st'\<lparr> as_current := as_current st @ [c] \<rparr>)"

definition parseAttributeArgs :: "string \<Rightarrow> string list" where
  "parseAttributeArgs argsStr =
     (let st = foldl args_step
                 \<lparr> as_args = [], as_current = [], as_depth = 0, as_inString = False,
                   as_stringChar = None, as_prev = None \<rparr> argsStr
      in if trim (as_current st) \<noteq> [] then as_args st @ [trim (as_current st)]
         else as_args st)"

definition fieldRegex :: rx where
  \<comment> \<open>\<open>/^(\w+)\s+([\w\[\]?]+)(.*)$/\<close>\<close>
  "fieldRegex =
     seqs [Bol, Group 1 (Plus Word), Plus Space, Group 2 (Plus (Union Word (Chars ''[]?''))),
           Group 3 (Star Dot), Eol]"

definition attrRegex :: rx where
  \<comment> \<open>\<open>/@(\w+)(?:\(([^)]*)\))?/g\<close>\<close>
  "attrRegex =
     seqs [Lit ''@'', Group 1 (Plus Word),
           Opt (seqs [Lit ''('', Group 2 (Star (Neg (Chars '')''))), Lit '')''])]"

definition parseField :: "string \<Rightarrow> PrismaField option" where
  "parseField line =
     (case rx_match fieldRegex line of
        None \<Rightarrow> None
      | Some m \<Rightarrow>
          let name = grp_str m 1;
              typeStr = grp_str m 2;
              attributesStr = grp_str m 3;
              isArray = endsWith typeStr ''[]'';
              isOptional = endsWith typeStr ''?'';
              type1 = (if isArray then take (length typeStr - 2) typeStr else typeStr);
              type2 = (if isOptional then take (length type1 - 1) type1 else type1);
              attributes =
                map (\<lambda>a. \<lparr> attr_name = grp_str a 1,
                           attr_args = (case grp a 2 of
                                          None \<Rightarrow> []
                                        | Some attrArgs \<Rightarrow>
                                            if attrArgs = [] then []
                                            else parseAttributeArgs attrArgs) \<rparr>)
                    (rx_exec_all attrRegex attributesStr)
          in Some \<lparr> fld_name = name, fld_type = type2, fld_isArray = isArray,
                    fld_isOptional = isOptional, fld_attributes = attributes \<rparr>)"

definition bracketRegex :: rx where
  \<comment> \<open>\<open>/\[([^\]]+)\]/\<close>\<close>
  "bracketRegex = seqs [Lit ''['', Group 1 (Plus (Neg (Chars '']''))), Lit '']'']"

definition nameArgRegex :: rx where
  \<comment> \<open>\<open>/name:\s*["']([^"']+)["']/\<close>\<close>
  "nameArgRegex =
     seqs [Lit ''name:'', Star Space, One (Chars [CHR 0x22, CHR 0x27]),
           Group 1 (Plus (Neg (Chars [CHR 0x22, CHR 0x27]))), One (Chars [CHR 0x22, CHR 0x27])]"

definition parseIndexAttribute :: "string \<Rightarrow> (string list \<times> string option) option" where
  "parseIndexAttribute argsStr =
     (let columns = (case rx_match bracketRegex argsStr of
                       None \<Rightarrow> []
                     | Some m \<Rightarrow> map trim (split (grp_str m 1) (CHR '','')));
          name = (case rx_match nameArgRegex argsStr of None \<Rightarrow> None | Some m \<Rightarrow> grp m 1)
      in if length columns > 0 then Some (columns, name) else None)"

definition modelRegex :: rx where
  \<comment> \<open>\<open>/model\s+(\w+)\s*\{([^}]+)\}/g\<close>\<close>
  "modelRegex =
     seqs [Lit ''model'', Plus Space, Group 1 (Plus Word), Star Space, Lit ''{'',
           Group 2 (Plus (Neg (Chars ''}''))), Lit ''}'']"

definition modelAttrRegex :: rx where
  \<comment> \<open>\<open>/@@(\w+)\(([^)]*)\)/\<close>\<close>
  "modelAttrRegex =
     seqs [Lit ''@@'', Group 1 (Plus Word), Lit ''('', Group 2 (Star (Neg (Chars '')''))),
           Lit '')'']"

text \<open>One round of the loop over the lines of a model body.\<close>

definition parseModelLine ::
  "string \<Rightarrow> PrismaField list \<times> ParsedIndex list \<times> PrismaFieldAttribute list \<Rightarrow> string
     \<Rightarrow> PrismaField list \<times> ParsedIndex list \<times> PrismaFieldAttribute list" where
  "parseModelLine modelName st line =
     (case st of (flds, indexes, attributes) \<Rightarrow>
        if startsWith line ''//'' then st
        else if startsWith line ''@@''
        then (case rx_match modelAttrRegex line of
                None \<Rightarrow> st
              | Some m \<Rightarrow>
                  let attrName = grp_str m 1;
                      attrArgs = grp_str m 2;
                      attributes' = attributes @ [\<lparr> attr_name = attrName, attr_args = [attrArgs] \<rparr>]
                  in if attrName = ''index'' \<or> attrName = ''unique''
                     then (case parseIndexAttribute attrArgs of
                             None \<Rightarrow> (flds, indexes, attributes')
                           | Some (columns, name) \<Rightarrow>
                               (flds,
                                indexes @
                                  [\<lparr> idx_name =
                                        (case name of
                                           Some n \<Rightarrow> n
                                         | None \<Rightarrow> modelName @ ''_'' @ attrName @ ''_'' @
                                                     show_nat (length indexes)),
                                      idx_columns = columns,
                                      idx_isUnique = (attrName = ''unique'') \<rparr>],
                                attributes'))
                     else (flds, indexes, attributes'))
        else (case parseField line of
                None \<Rightarrow> st
              | Some field \<Rightarrow> (flds @ [field], indexes, attributes)))"

definition parseModels :: "string \<Rightarrow> PrismaModel list" where
  "parseModels schemaCode =
     map (\<lambda>m.
            let modelName = grp_str m 1;
                modelBody = grp_str m 2;
                lines = filter (\<lambda>l. l \<noteq> []) (map trim (split modelBody (CHR 0x0A)))
            in case foldl (parseModelLine modelName) ([], [], []) lines of
                 (flds, indexes, attributes) \<Rightarrow>
                   \<lparr> mdl_name = modelName, mdl_fields = flds, mdl_indexes = indexes,
                     mdl_attributes = attributes \<rparr>)
         (rx_exec_all modelRegex schemaCode)"

definition nativeTypeRegex :: rx where
  \<comment> \<open>\<open>/(\w+)(?:\(([^)]+)\))?/\<close>\<close>
  "nativeTypeRegex =
     seqs [Group 1 (Plus Word),
           Opt (seqs [Lit ''('', Group 2 (Plus (Neg (Chars '')''))), Lit '')''])]"

definition find_attr :: "string \<Rightarrow> PrismaField \<Rightarrow> PrismaFieldAttribute option" where
  \<comment> \<open>\<open>field.attributes.find(a => a.name === n)\<close>\<close>
  "find_attr n field = find (\<lambda>a. attr_name a = n) (fld_attributes field)"

text \<open>
  \<open>convertFieldToColumn\<close>. Nothing in its body throws, so the \<open>null\<close> of its \<open>catch\<close> is
  never returned; the result type keeps the source's \<open>ParsedColumn | null\<close>.
\<close>

definition convertFieldToColumn :: "PrismaField \<Rightarrow> ParsedEnum list \<Rightarrow> ParsedColumn option" where
  "convertFieldToColumn field enms =
     (let dbType0 = (case js_get PRISMA_TYPE_MAPPING (fld_type field) of
                       Own t \<Rightarrow> TypeName t
                     | Inherited n \<Rightarrow> InheritedMember n
                     | Undefined \<Rightarrow> TypeName (toLowerCase (fld_type field)));
          isEnum = list_ex (\<lambda>e. enum_name e = fld_type field) enms;
          dbType1 = (if isEnum then TypeName (''enum('' @ fld_type field @ '')'') else dbType0);
          dbType2 = (if fld_isArray field then TypeName (typeval_string dbType1 @ ''[]'')
                     else dbType1);
          idAttr = find_attr ''id'' field;
          uniqueAttr = find_attr ''unique'' field;
          defaultAttr = find_attr ''default'' field;
          dbAttr = find_attr ''db'' field;
          dbType3 =
            (case dbAttr of
               None \<Rightarrow> dbType2
             | Some a \<Rightarrow>
                 (case attr_args a of
                    [] \<Rightarrow> dbType2
                  | nativeType # _ \<Rightarrow>
                      (case rx_match nativeTypeRegex nativeType of
                         None \<Rightarrow> dbType2
                       | Some m \<Rightarrow>
                           (case grp m 2 of
                              None \<Rightarrow> TypeName (toLowerCase (grp_str m 1))
                            | Some typeArgs \<Rightarrow>
                                if typeArgs = [] then TypeName (toLowerCase (grp_str m 1))
                                else TypeName (toLowerCase (grp_str m 1) @ ''('' @ typeArgs @ '')'')))));
          dbType4 =
            (if idAttr \<noteq> None \<and> fld_type field = ''Int''
             then (case defaultAttr of
                     None \<Rightarrow> dbType3
                   | Some d \<Rightarrow>
                       if list_ex (\<lambda>arg. str_includes arg ''autoincrement'') (attr_args d)
                       then TypeName ''serial'' else dbType3)
             else dbType3);
          dflt =
            (case defaultAttr of
               None \<Rightarrow> None
             | Some d \<Rightarrow>
                 let defaultArg = (case attr_args d of [] \<Rightarrow> [] | a # _ \<Rightarrow> a)
                 in if str_includes defaultArg ''uuid()'' \<or> str_includes defaultArg ''cuid()''
                    then Some ''gen_random_uuid()''
                    else if str_includes defaultArg ''now()'' then Some ''now()''
                    else if str_includes defaultArg ''autoincrement()'' then Some ''autoincrement''
                    else Some defaultArg)
      in Some \<lparr> col_name = fld_name field, col_type = dbType4,
                isPrimaryKey = (idAttr \<noteq> None), isUnique = (uniqueAttr \<noteq> None),
                isNotNull = (\<not> fld_isOptional field),
                col_references = None, defaultValue = dflt \<rparr>)"

text \<open>One round of the loop of \<open>convertModelToTable\<close>: the columns a field adds.\<close>

definition fieldColumns :: "ParsedEnum list \<Rightarrow> PrismaField \<Rightarrow> ParsedColumn list" where
  "fieldColumns enms field =
     (let isRelation = (js_get PRISMA_TYPE_MAPPING (fld_type field) = Undefined \<and>
                        \<not> list_ex (\<lambda>e. enum_name e = fld_type field) enms \<and>
                        fld_type field \<noteq> ''Unsupported'')
      in if isRelation \<and> \<not> list_ex (\<lambda>a. attr_name a = ''relation'') (fld_attributes field)
         then []
         else (case convertFieldToColumn field enms of None \<Rightarrow> [] | Some column \<Rightarrow> [column]))"

definition convertModelToTable ::
  "(nat \<Rightarrow> real) \<Rightarrow> PrismaModel \<Rightarrow> nat \<Rightarrow> ParsedEnum list \<Rightarrow> ParsedTable option" where
  "convertModelToTable rnd model index enms =
     Some \<lparr> tbl_id = mdl_name model, tbl_name = mdl_name model,
            tbl_columns = concat (map (fieldColumns enms) (mdl_fields model)),
            tbl_indexes = mdl_indexes model,
            tbl_position = generateTablePosition rnd index \<rparr>"

definition namedArgRegex :: rx where
  \<comment> \<open>\<open>/(\w+):\s*(.+)/\<close>\<close>
  "namedArgRegex = seqs [Group 1 (Plus Word), Lit '':'', Star Space, Group 2 (Plus Dot)]"

record relation_data =
  rd_name :: "string option"
  rd_fields :: "string list option"
  rd_references :: "string list option"

definition relation_arg :: "relation_data \<Rightarrow> string \<Rightarrow> relation_data" where
  "relation_arg result arg =
     (case rx_match namedArgRegex arg of
        Some m \<Rightarrow>
          let key = grp_str m 1; val = grp_str m 2
          in if key = ''fields'' \<or> key = ''references''
             then (case rx_match bracketRegex val of
                     None \<Rightarrow> result
                   | Some a \<Rightarrow>
                       let arr = map trim (split (grp_str a 1) (CHR '',''))
                       in if key = ''fields'' then result\<lparr> rd_fields := Some arr \<rparr>
                          else result\<lparr> rd_references := Some arr \<rparr>)
             else if key = ''name'' then result\<lparr> rd_name := Some (strip_quotes val) \<rparr>
             else result
      | None \<Rightarrow>
          if rd_name result = None \<or> rd_name result = Some []
          then result\<lparr> rd_name := Some (strip_quotes arg) \<rparr>
          else result)"

definition parseRelationAttribute :: "string list \<Rightarrow> relation_data" where
  "parseRelationAttribute args =
     foldl relation_arg \<lparr> rd_name = None, rd_fields = None, rd_references = None \<rparr> args"

text \<open>
  \<open>references[i] || references[0]\<close>. The array comes from \<open>split\<close> and is never empty (an
  empty one would give \<open>undefined\<close>).
\<close>

definition ref_or_first :: "string list \<Rightarrow> nat \<Rightarrow> string" where
  "ref_or_first refs i =
     (if i < length refs \<and> refs ! i \<noteq> [] then refs ! i
      else (case refs of [] \<Rightarrow> [] | r # _ \<Rightarrow> r))"

definition mkRelationship :: "string \<Rightarrow> string \<Rightarrow> string \<Rightarrow> string \<Rightarrow> ParsedRelationship" where
  "mkRelationship src srcCol tgt tgtCol =
     \<lparr> rel_id = generateRelationshipId src srcCol tgt, rel_source = src, rel_target = tgt,
       sourceColumn = srcCol, targetColumn = tgtCol \<rparr>"

text \<open>One round of the loop of \<open>extractRelationships\<close>: the relationships a field adds.\<close>

definition fieldRelationships ::
  "PrismaModel \<Rightarrow> PrismaModel list \<Rightarrow> PrismaField \<Rightarrow> ParsedRelationship list" where
  "fieldRelationships model allModels field =
     (let relationAttr = find_attr ''relation'' field
      in case find (\<lambda>m. mdl_name m = fld_type field) allModels of
           None \<Rightarrow> []
         | Some targetModel \<Rightarrow>
             if (case relationAttr of None \<Rightarrow> False | Some a \<Rightarrow> length (attr_args a) > 0)
             then (let relationData =
                         parseRelationAttribute
                           (case relationAttr of None \<Rightarrow> [] | Some a \<Rightarrow> attr_args a)
                   in case (rd_fields relationData, rd_references relationData) of
                        (Some flds, Some refs) \<Rightarrow>
                          map (\<lambda>i. mkRelationship (mdl_name model) (flds ! i) (fld_type field)
                                     (ref_or_first refs i))
                              [0 ..< length flds]
                      | _ \<Rightarrow> [])
             else if \<not> fld_isArray field
             then (case find (\<lambda>f. fld_name f = fld_name field @ ''Id'' \<or>
                                   fld_name f = fld_name field @ ''_id'' \<or>
                                   toLowerCase (fld_name f) = toLowerCase (fld_name field) @ ''id'')
                             (mdl_fields model) of
                     None \<Rightarrow> []
                   | Some fkField \<Rightarrow>
                       (case find (\<lambda>f. list_ex (\<lambda>a. attr_name a = ''id'') (fld_attributes f))
                                  (mdl_fields targetModel) of
                          None \<Rightarrow> []
                        | Some targetPk \<Rightarrow>
                            [mkRelationship (mdl_name model) (fld_name fkField) (fld_type field)
                               (fld_name targetPk)]))
             else [])"

definition extractRelationships :: "PrismaModel \<Rightarrow> PrismaModel list \<Rightarrow> ParsedRelationship list" where
  "extractRelationships model allModels =
     concat (map (fieldRelationships model allModels) (mdl_fields model))"

text \<open>
  \<open>parsePrismaSchema\<close>. The argument is a string, so \<open>!schemaCode\<close> holds for the empty string
  only. No step of the body throws on a string, so the \<open>catch\<close> with its call of the fallback
  parser is never entered.
\<close>

definition parsePrismaSchema :: "(nat \<Rightarrow> real) \<Rightarrow> string \<Rightarrow> ParseResult" where
  "parsePrismaSchema rnd schemaCode =
     (if schemaCode = [] then Failure ''Invalid schema code provided''
      else let cleanedCode = cleanCode schemaCode
           in if cleanedCode = [] then Failure ''Schema code is empty after cleaning''
              else if \<not> str_includes cleanedCode ''model '' \<and> \<not> str_includes cleanedCode ''enum ''
              then Failure ''No Prisma models or enums found. Make sure you have model definitions.''
              else let parsedEnums = parseEnums cleanedCode;
                       models = parseModels cleanedCode;
                       tbls = concat (map (\<lambda>(model, index).
                                             case convertModelToTable rnd model index parsedEnums of
                                               None \<Rightarrow> [] | Some t \<Rightarrow> [t])
                                          (zip models [0 ..< length models]));
                       rels = concat (map (\<lambda>model. extractRelationships model models) models)
                   in if length tbls = 0 \<and> length parsedEnums = 0
                      then Failure ''No valid Prisma models or enums found in the schema''
                      else Success \<lparr> tables = tbls, relationships = rels, enums = parsedEnums \<rparr>)"

definition fallbackFieldRegex :: rx where
  \<comment> \<open>\<open>/^(\w+)\s+([\w\[\]?]+)/\<close>\<close>
  "fallbackFieldRegex =
     seqs [Bol, Group 1 (Plus Word), Plus Space, Group 2 (Plus (Union Word (Chars ''[]?'')))]"

text \<open>One round of the loop over the lines of a model body in the fallback parser.\<close>

definition fallbackLine :: "ParsedColumn list \<Rightarrow> string \<Rightarrow> ParsedColumn list" where
  "fallbackLine columns line =
     (let trimmed = trim line
      in if trimmed = [] \<or> startsWith trimmed ''//'' \<or> startsWith trimmed ''@@'' then columns
         else (case rx_match fallbackFieldRegex trimmed of
                 None \<Rightarrow> columns
               | Some m \<Rightarrow>
                   let fieldName = grp_str m 1;
                       typeStr = grp_str m 2;
                       bare = filter (\<lambda>c. c \<notin> set ''[]?'') typeStr;
                       column = (\<lambda>t. \<lparr> col_name = fieldName, col_type = t,
                                        isPrimaryKey = str_includes trimmed ''@id'',
                                        isUnique = str_includes trimmed ''@unique'',
                                        isNotNull = (\<not> str_includes typeStr ''?''),
                                        col_references = None, defaultValue = None \<rparr>)
                   in (case js_get PRISMA_TYPE_MAPPING bare of
                         Undefined \<Rightarrow> columns
                       | Own t \<Rightarrow> columns @ [column (TypeName t)]
                       | Inherited n \<Rightarrow> columns @ [column (InheritedMember n)])))"

text \<open>One round of the loop over the models: the tables so far and \<open>tableIndex\<close>.\<close>

definition fallbackModel ::
  "(nat \<Rightarrow> real) \<Rightarrow> ParsedTable list \<times> nat \<Rightarrow> rmatch \<Rightarrow> ParsedTable list \<times> nat" where
  "fallbackModel rnd st m =
     (case st of (tbls, tableIndex) \<Rightarrow>
        let modelName = grp_str m 1;
            modelBody = grp_str m 2;
            columns = foldl fallbackLine [] (split modelBody (CHR 0x0A))
        in if length columns > 0
           then (tbls @ [\<lparr> tbl_id = modelName, tbl_name = modelName, tbl_columns = columns,
                            tbl_indexes = [],
                            tbl_position = generateTablePosition rnd tableIndex \<rparr>],
                 tableIndex + 1)
           else (tbls, tableIndex))"

text \<open>
  \<open>parsePrismaSchemaFallback\<close>: its \<open>try\<close> block scans a string with regular expressions
  and string methods, none of which throws; the function has no other \<open>return\<close> than the
  one that ends the block.
\<close>

definition parsePrismaSchemaFallback :: "(nat \<Rightarrow> real) \<Rightarrow> string \<Rightarrow> ParseResult" where
  "parsePrismaSchemaFallback rnd schemaCode =
     (let enms = map (\<lambda>m. \<lparr> enum_name = grp_str m 1,
                            enum_values = filter (\<lambda>v. v \<noteq> [])
                                            (map trim (split_ws (grp_str m 2))) \<rparr>)
                     (rx_exec_all enumRegex schemaCode);
          tbls = fst (foldl (fallbackModel rnd) ([], 0) (rx_exec_all modelRegex schemaCode))
      in Success \<lparr> tables = tbls, relationships = [], enums = enms \<rparr>)"

subsection \<open>Example input: a blog schema\<close>

definition blog_schema :: string where
  "blog_schema =
     ''model User {\<newline>  id String @id\<newline>}\<newline>model Post {\<newline>  authorId String\<newline>  author User\<newline>}''"

definition ex_user :: PrismaModel where
  "ex_user =
     \<lparr> mdl_name = ''User'',
       mdl_fields = [\<lparr> fld_name = ''id'', fld_type = ''String'', fld_isArray = False,
                       fld_isOptional = False,
                       fld_attributes = [\<lparr> attr_name = ''id'', attr_args = [] \<rparr>] \<rparr>],
       mdl_indexes = [], mdl_attributes = [] \<rparr>"

definition ex_author :: PrismaField where
  "ex_author =
     \<lparr> fld_name = ''author'', fld_type = ''User'', fld_isArray = False,
       fld_isOptional = False, fld_attributes = [] \<rparr>"

definition ex_post :: PrismaModel where
  "ex_post =
     \<lparr> mdl_name = ''Post'',
       mdl_fields = [\<lparr> fld_name = ''authorId'', fld_type = ''String'', fld_isArray = False,
                       fld_isOptional = False, fld_attributes = [] \<rparr>,
                     ex_author],
       mdl_indexes = [], mdl_attributes = [] \<rparr>"

section \<open>The fluent-dialect parser (drizzle-parser)\<close>

subsection \<open>Syntax trees\<close>

text \<open>
  The structural parser works on the ESTree syntax tree that the external parser
  (acorn with its TypeScript plugin) returns. A literal carries its value; of a value that
  is not a string the model keeps what \<open>String(value)\<close> gives: the decimal print of a
  number (\<open>LNum\<close>), and the print of a boolean, \<open>null\<close>, a big integer or a regular
  expression (\<open>LOther\<close>).
\<close>

datatype litval = LStr string | LNum string | LOther string

text \<open>
  The node types the parser tests for, with the fields it reads, in the order in which the
  external parser creates them (the order \<open>walkAST\<close> visits them in). An array
  expression has \<open>null\<close> for a hole. Every other type of node is an \<open>OtherNode\<close> with its
  child nodes. The \<open>computed\<close> flag of a member expression and the type annotations of the
  TypeScript plugin are never read and hold no declaration; they are left out.
\<close>

datatype node =
    Identifier string
  | Literal litval
  | CallExpression node "node list"               \<comment> \<open>callee, arguments\<close>
  | MemberExpression node node                     \<comment> \<open>object, property\<close>
  | ObjectExpression "node list"                   \<comment> \<open>properties\<close>
  | Property node node                             \<comment> \<open>key, value\<close>
  | SpreadElement node                             \<comment> \<open>argument\<close>
  | ArrayExpression "node option list"             \<comment> \<open>elements\<close>
  | ArrowFunctionExpression "node list" node       \<comment> \<open>params, body\<close>
  | VariableDeclaration "node list"                \<comment> \<open>declarations\<close>
  | VariableDeclarator node "node option"          \<comment> \<open>id, init\<close>
  | ExportNamedDeclaration "node option" "node list"   \<comment> \<open>declaration, specifiers\<close>
  | Program "node list"                            \<comment> \<open>body\<close>
  | OtherNode string "node list"                   \<comment> \<open>type, child nodes\<close>

definition lit_string :: "litval \<Rightarrow> string" where
  \<comment> \<open>\<open>String(value)\<close>\<close>
  "lit_string v = (case v of LStr s \<Rightarrow> s | LNum s \<Rightarrow> s | LOther s \<Rightarrow> s)"

text \<open>
  \<open>walkAST\<close> calls its callback on a node and then walks the child nodes. The callbacks
  of the parser read the node and add to the lists of their pass, so a pass is a fold of
  its callback over the nodes in the order of the walk.
\<close>

fun walkAST :: "node \<Rightarrow> node list" where
  "walkAST (Identifier n) = [Identifier n]"
| "walkAST (Literal v) = [Literal v]"
| "walkAST (CallExpression callee args) =
     CallExpression callee args # walkAST callee @ concat (map walkAST args)"
| "walkAST (MemberExpression obj prop) =
     MemberExpression obj prop # walkAST obj @ walkAST prop"
| "walkAST (ObjectExpression props) = ObjectExpression props # concat (map walkAST props)"
| "walkAST (Property k v) = Property k v # walkAST k @ walkAST v"
| "walkAST (SpreadElement a) = SpreadElement a # walkAST a"
| "walkAST (ArrayExpression elements) =
     ArrayExpression elements #
     concat (map (\<lambda>e. case e of None \<Rightarrow> [] | Some n \<Rightarrow> walkAST n) elements)"
| "walkAST (ArrowFunctionExpression params body) =
     ArrowFunctionExpression params body # concat (map walkAST params) @ walkAST body"
| "walkAST (VariableDeclaration decls) = VariableDeclaration decls # concat (map walkAST decls)"
| "walkAST (VariableDeclarator i init) =
     VariableDeclarator i init # walkAST i @ (case init of None \<Rightarrow> [] | Some n \<Rightarrow> walkAST n)"
| "walkAST (ExportNamedDeclaration decl specs) =
     ExportNamedDeclaration decl specs #
     (case decl of None \<Rightarrow> [] | Some n \<Rightarrow> walkAST n) @ concat (map walkAST specs)"
| "walkAST (Program body) = Program body # concat (map walkAST body)"
| "walkAST (OtherNode t children) = OtherNode t children # concat (map walkAST children)"

text \<open>\<open>declaration.id\<close> and \<open>declaration.init\<close>; a missing property reads as \<open>undefined\<close>.\<close>

definition decl_id :: "node \<Rightarrow> node option" where
  "decl_id d = (case d of VariableDeclarator i init \<Rightarrow> Some i | _ \<Rightarrow> None)"

definition decl_init :: "node \<Rightarrow> node option" where
  "decl_init d = (case d of VariableDeclarator i init \<Rightarrow> init | _ \<Rightarrow> None)"

subsection \<open>Enums\<close>

definition parseEnumFromAST :: "node \<Rightarrow> ParsedEnum option" where
  "parseEnumFromAST declaration =
     (case (decl_id declaration, decl_init declaration) of
        (Some (Identifier enumName), Some (CallExpression callee args)) \<Rightarrow>
          (case args of
             enumDbName # valuesNode # _ \<Rightarrow>
               (case (enumDbName, valuesNode) of
                  (Literal dbName, ArrayExpression elements) \<Rightarrow>
                    Some \<lparr> enum_name = enumName,
                           enum_values =
                             filter (\<lambda>v. v \<noteq> [])
                               (map (\<lambda>el. case el of Some (Literal (LStr s)) \<Rightarrow> s | _ \<Rightarrow> [])
                                    elements) \<rparr>
                | _ \<Rightarrow> None)
           | _ \<Rightarrow> None)
      | _ \<Rightarrow> None)"

subsection \<open>Columns\<close>

text \<open>
  The loop that unwinds a chain of method calls: \<open>chainedCalls\<close> gets the method names in
  the order of application, and the result also holds the expression the loop stops at.
\<close>

fun unwindChain :: "node \<Rightarrow> string list \<Rightarrow> string list \<times> node" where
  "unwindChain (CallExpression (MemberExpression obj (Identifier name)) args) chainedCalls =
     unwindChain obj (name # chainedCalls)"
| "unwindChain currentExpr chainedCalls = (chainedCalls, currentExpr)"

fun parseReferencesFromAST :: "node \<Rightarrow> reference option" where
  "parseReferencesFromAST (CallExpression (MemberExpression obj prop) args) =
     (if prop = Identifier ''references'' \<and> length args > 0
      then (case hd args of
              ArrowFunctionExpression params (MemberExpression (Identifier tableName)
                                                               (Identifier columnName)) \<Rightarrow>
                Some \<lparr> ref_table = tableName, ref_column = columnName \<rparr>
            | _ \<Rightarrow> None)
      else parseReferencesFromAST obj)"
| "parseReferencesFromAST currentExpr = None"

definition typeMapping :: "(string \<times> string) list" where
  "typeMapping =
     [(''bigint'', ''bigint''), (''bigserial'', ''bigserial''), (''bit'', ''bit''),
      (''boolean'', ''boolean''), (''bytea'', ''bytea''), (''char'', ''char''),
      (''cidr'', ''cidr''), (''date'', ''date''), (''doublePrecision'', ''double precision''),
      (''inet'', ''inet''), (''integer'', ''integer''), (''interval'', ''interval''),
      (''json'', ''json''), (''jsonb'', ''jsonb''), (''macaddr'', ''macaddr''),
      (''macaddr8'', ''macaddr8''), (''numeric'', ''numeric''), (''decimal'', ''decimal''),
      (''pgEnum'', ''enum''), (''point'', ''point''), (''real'', ''real''), (''blob'', ''blob''),
      (''serial'', ''serial''), (''smallint'', ''smallint''), (''smallserial'', ''smallserial''),
      (''text'', ''text''), (''time'', ''time''), (''timestamp'', ''timestamp''),
      (''timestamptz'', ''timestamptz''), (''uuid'', ''uuid''), (''varchar'', ''varchar''),
      (''vector'', ''vector''), (''xml'', ''xml'')]"

text \<open>The arguments of the base call: one string for each argument that is kept.\<close>

definition columnArg :: "node \<Rightarrow> string list" where
  "columnArg arg =
     (case arg of
        ObjectExpression properties \<Rightarrow>
          [''{ '' @
           join '', ''
             (filter (\<lambda>s. s \<noteq> [])
                (map (\<lambda>p. case p of
                             Property (Identifier k) (Literal v) \<Rightarrow> k @ '': '' @ lit_string v
                           | _ \<Rightarrow> [])
                     properties)) @
           '' }'']
      | Literal (LStr s) \<Rightarrow> [s]
      | Literal (LNum s) \<Rightarrow> [s]
      | _ \<Rightarrow> [])"

definition parseColumnFromAST :: "node \<Rightarrow> ParsedColumn option" where
  "parseColumnFromAST prop =
     (case prop of
        Property (Identifier columnName) columnExpression \<Rightarrow>
          (case unwindChain columnExpression [] of
             (chainedCalls, currentExpr) \<Rightarrow>
               let (columnType, columnArgs) =
                     (case currentExpr of
                        CallExpression (Identifier name) args \<Rightarrow> (name, concat (map columnArg args))
                      | _ \<Rightarrow> ([], []));
                   displayType = (case js_get typeMapping columnType of
                                    Own t \<Rightarrow> t
                                  | Inherited n \<Rightarrow> member_string n
                                  | Undefined \<Rightarrow> columnType);
                   refs = (if ''references'' \<in> set chainedCalls
                           then parseReferencesFromAST columnExpression else None);
                   dflt = (case find (\<lambda>c. c \<in> set [''default'', ''defaultNow'', ''defaultRandom''])
                                     chainedCalls of
                             None \<Rightarrow> None
                           | Some defaultCall \<Rightarrow>
                               if defaultCall = ''defaultNow'' then Some ''now()''
                               else if defaultCall = ''defaultRandom'' then Some ''gen_random_uuid()''
                               else Some ''default'')
               in Some \<lparr> col_name = columnName,
                         col_type = TypeName
                                      (displayType @
                                       (if length columnArgs > 0
                                        then ''('' @ join '', '' columnArgs @ '')'' else [])),
                         isPrimaryKey = (''primaryKey'' \<in> set chainedCalls),
                         isUnique = (''unique'' \<in> set chainedCalls),
                         isNotNull = (''notNull'' \<in> set chainedCalls),
                         col_references = refs, defaultValue = dflt \<rparr>)
      | _ \<Rightarrow> None)"

subsection \<open>Tables\<close>

text \<open>
  \<open>sharedSchemas\<close> maps the name of a variable bound to an object literal to the
  properties of the literal; the binding made last is the first in the list. It is a plain
  object: a name that is not bound finds the inherited members, and once a variable named
  \<open>__proto__\<close> has been bound, which makes its object literal the prototype of the
  table, also the fields of that syntax node. What is found in this way is not a syntax
  node of an object literal.
\<close>

type_synonym sharedSchemas = "(string \<times> node list) list"

definition nodeFieldNames :: "string list" where
  "nodeFieldNames = [''type'', ''start'', ''end'', ''loc'', ''properties'']"

definition shared_get :: "sharedSchemas \<Rightarrow> string \<Rightarrow> node list member" where
  \<comment> \<open>\<open>sharedSchemas[name]\<close>\<close>
  "shared_get shared name =
     (case map_of shared name of
        Some properties \<Rightarrow> Own properties
      | None \<Rightarrow>
          if name \<in> set inheritedNames \<or>
             (map_of shared ''__proto__'' \<noteq> None \<and> name \<in> set nodeFieldNames)
          then Inherited name else Undefined)"

text \<open>
  One round of the loop over the properties of the columns object: the columns it adds,
  or \<open>None\<close> when it throws. It throws when the name of a spread element finds something
  that is not an object literal: that has no \<open>properties\<close> to call \<open>forEach\<close> on.
\<close>

definition propColumns :: "sharedSchemas \<Rightarrow> node \<Rightarrow> ParsedColumn list option" where
  "propColumns shared prop =
     (case prop of
        Property k v \<Rightarrow>
          Some (case parseColumnFromAST prop of None \<Rightarrow> [] | Some column \<Rightarrow> [column])
      | SpreadElement (Identifier schemaName) \<Rightarrow>
          (case shared_get shared schemaName of
             Undefined \<Rightarrow> Some []
           | Inherited n \<Rightarrow> None
           | Own sharedProps \<Rightarrow>
               Some (concat (map (\<lambda>sharedProp.
                                    case sharedProp of
                                      Property k v \<Rightarrow>
                                        (case parseColumnFromAST sharedProp of
                                           None \<Rightarrow> [] | Some column \<Rightarrow> [column])
                                    | _ \<Rightarrow> [])
                                 sharedProps)))
      | _ \<Rightarrow> Some [])"

text \<open>
  The checks of \<open>parseTableFromAST\<close>: the declared identifier, the literal with the table
  name and the properties of the columns object, when the declaration has them.
\<close>

definition tableParts :: "node \<Rightarrow> (string \<times> litval \<times> node list) option" where
  "tableParts declaration =
     (case (decl_id declaration, decl_init declaration) of
        (Some (Identifier tableName), Some (CallExpression callee args)) \<Rightarrow>
          let nodes =
                (if length args \<ge> 2 then Some (args ! 0, args ! 1)
                 else if length args = 1
                 then (case callee of
                         CallExpression innerCallee innerArgs \<Rightarrow>
                           if length innerArgs \<ge> 2 then Some (innerArgs ! 0, innerArgs ! 1)
                           else None
                       | _ \<Rightarrow> None)
                 else None)
          in (case nodes of
                Some (Literal v, ObjectExpression properties) \<Rightarrow> Some (tableName, v, properties)
              | _ \<Rightarrow> None)
      | _ \<Rightarrow> None)"

text \<open>
  \<open>parseTableFromAST\<close>: when a round of the loop over the properties throws, the
  \<open>catch\<close> of the function returns \<open>null\<close>; the position is drawn after the loop.
\<close>

definition parseTableFromAST ::
  "(nat \<Rightarrow> real) \<Rightarrow> node \<Rightarrow> nat \<Rightarrow> sharedSchemas \<Rightarrow> ParsedTable option" where
  "parseTableFromAST rnd declaration tableIndex shared =
     (case tableParts declaration of
        None \<Rightarrow> None
      | Some (tableName, v, properties) \<Rightarrow>
          (case those (map (propColumns shared) properties) of
             None \<Rightarrow> None
           | Some columns \<Rightarrow>
               Some \<lparr> tbl_id = tableName, tbl_name = lit_string v,
                      tbl_columns = concat columns,
                      tbl_indexes = [],
                      tbl_position = generateTablePosition rnd tableIndex \<rparr>))"

subsection \<open>Relations declared with the relations helper\<close>

definition findProp :: "string \<Rightarrow> node list \<Rightarrow> node option" where
  \<comment> \<open>\<open>properties.find(p => isProperty(p) && isIdentifier(p.key) && p.key.name === n)\<close>\<close>
  "findProp n properties =
     find (\<lambda>p. case p of Property (Identifier k) v \<Rightarrow> k = n | _ \<Rightarrow> False) properties"

definition prop_value :: "node \<Rightarrow> node option" where
  "prop_value p = (case p of Property k v \<Rightarrow> Some v | _ \<Rightarrow> None)"

text \<open>One round of the loop over the properties of the relations object.\<close>

definition relationOfProp :: "string \<Rightarrow> node \<Rightarrow> ParsedRelationship list" where
  "relationOfProp sourceTableName prop =
     (case prop of
        Property k (CallExpression (Identifier relType) relArgs) \<Rightarrow>
          if relType = ''one'' \<and> length relArgs > 1
          then (case (relArgs ! 0, relArgs ! 1) of
                  (Identifier targetTableName, ObjectExpression configProps) \<Rightarrow>
                    (case (findProp ''fields'' configProps, findProp ''references'' configProps) of
                       (Some fieldsProp, Some referencesProp) \<Rightarrow>
                         (case (prop_value fieldsProp, prop_value referencesProp) of
                            (Some (ArrayExpression fieldsElements),
                             Some (ArrayExpression refsElements)) \<Rightarrow>
                              if length fieldsElements > 0 \<and> length refsElements > 0
                              then (case (fieldsElements ! 0, refsElements ! 0) of
                                      (Some (MemberExpression sobj (Identifier sourceCol)),
                                       Some (MemberExpression robj (Identifier targetCol))) \<Rightarrow>
                                        [mkRelationship sourceTableName sourceCol
                                           targetTableName targetCol]
                                    | _ \<Rightarrow> [])
                              else []
                          | _ \<Rightarrow> [])
                     | _ \<Rightarrow> [])
                | _ \<Rightarrow> [])
          else []
      | _ \<Rightarrow> [])"

definition parseRelationsFromAST :: "node \<Rightarrow> ParsedRelationship list" where
  "parseRelationsFromAST declaration =
     (case decl_init declaration of
        Some (CallExpression callee args) \<Rightarrow>
          if length args < 2 then []
          else (case (args ! 0, args ! 1) of
                  (Identifier sourceTableName,
                   ArrowFunctionExpression params (ObjectExpression properties)) \<Rightarrow>
                    concat (map (relationOfProp sourceTableName) properties)
                | _ \<Rightarrow> [])
      | _ \<Rightarrow> [])"

subsection \<open>Indexes\<close>

text \<open>
  \<open>tableMap\<close> maps an id to the table declared last with it, and \<open>parseIndexFromAST\<close>
  pushes the index to that table: \<open>addIndex\<close> adds to the last table of the list with
  the id, and to none when there is no such table.
\<close>

fun addIndex :: "string \<Rightarrow> ParsedIndex \<Rightarrow> ParsedTable list \<Rightarrow> ParsedTable list" where
  "addIndex onTable ix [] = []"
| "addIndex onTable ix (t # ts) =
     (if list_ex (\<lambda>u. tbl_id u = onTable) ts then t # addIndex onTable ix ts
      else if tbl_id t = onTable then t\<lparr> tbl_indexes := tbl_indexes t @ [ix] \<rparr> # ts
      else t # ts)"

text \<open>
  The checks of \<open>parseIndexFromAST\<close>: the identifier of the table and the index, when the
  declaration has the shape of an index.
\<close>

definition indexParts :: "node \<Rightarrow> (string \<times> ParsedIndex) option" where
  "indexParts declaration =
     (case (decl_init declaration, decl_id declaration) of
        (Some (CallExpression (Identifier calleeName) args), Some (Identifier indexName)) \<Rightarrow>
          (case args of
             CallExpression (MemberExpression onTableExpression (Identifier onName)) onArgs # _ \<Rightarrow>
               if onName = ''on''
               then (let columns =
                           filter (\<lambda>s. s \<noteq> [])
                             (map (\<lambda>col. case col of
                                            MemberExpression obj (Identifier name) \<Rightarrow> name
                                          | _ \<Rightarrow> [])
                                  onArgs)
                     in case onTableExpression of
                          MemberExpression (Identifier onTable) p \<Rightarrow>
                            Some (onTable,
                                  \<lparr> idx_name = indexName, idx_columns = columns,
                                    idx_isUnique = (calleeName = ''uniqueIndex'') \<rparr>)
                        | _ \<Rightarrow> None)
               else None
           | _ \<Rightarrow> None)
      | _ \<Rightarrow> None)"

definition parseIndexFromAST :: "node \<Rightarrow> ParsedTable list \<Rightarrow> ParsedTable list" where
  "parseIndexFromAST declaration tbls =
     (case indexParts declaration of
        None \<Rightarrow> tbls
      | Some (onTable, ix) \<Rightarrow> addIndex onTable ix tbls)"

subsection \<open>The passes of the structural parser\<close>

text \<open>First pass: enums and shared schemas, for every declarator of a declaration.\<close>

definition firstPassDecl ::
  "ParsedEnum list \<times> sharedSchemas \<Rightarrow> node \<Rightarrow> ParsedEnum list \<times> sharedSchemas" where
  "firstPassDecl st declaration =
     (case st of (enms, shared) \<Rightarrow>
        (case decl_init declaration of
           Some (CallExpression callee args) \<Rightarrow>
             if callee = Identifier ''pgEnum''
             then (case parseEnumFromAST declaration of
                     None \<Rightarrow> st
                   | Some enumData \<Rightarrow> (enms @ [enumData], shared))
             else st
         | Some (ObjectExpression properties) \<Rightarrow>
             (case decl_id declaration of
                Some (Identifier name) \<Rightarrow> (enms, (name, properties) # shared)
              | _ \<Rightarrow> st)
         | _ \<Rightarrow> st))"

definition firstPass ::
  "ParsedEnum list \<times> sharedSchemas \<Rightarrow> node \<Rightarrow> ParsedEnum list \<times> sharedSchemas" where
  "firstPass st n =
     (case n of VariableDeclaration decls \<Rightarrow> foldl firstPassDecl st decls | _ \<Rightarrow> st)"

definition tableConstructors :: "string list" where
  "tableConstructors =
     [''pgTable'', ''pgTableCreator'', ''sqliteTable'', ''sqliteTableCreator'',
      ''mysqlTable'', ''mysqlTableCreator'']"

text \<open>Second pass: exported declarations whose first declarator is a table.\<close>

definition isTableCallee :: "node \<Rightarrow> bool" where
  "isTableCallee callee =
     (case callee of
        Identifier name \<Rightarrow> name \<in> set tableConstructors
      | MemberExpression obj (Identifier name) \<Rightarrow> name = ''table''
      | _ \<Rightarrow> False)"

definition tableDeclaration :: "node \<Rightarrow> node option" where
  \<comment> \<open>the declarator that the callback of the second pass hands to \<open>parseTableFromAST\<close>\<close>
  "tableDeclaration n =
     (case n of
        ExportNamedDeclaration (Some (VariableDeclaration (declaration # _))) specs \<Rightarrow>
          (case decl_init declaration of
             Some (CallExpression callee args) \<Rightarrow>
               if isTableCallee callee then Some declaration else None
           | _ \<Rightarrow> None)
      | _ \<Rightarrow> None)"

definition secondPass ::
  "(nat \<Rightarrow> real) \<Rightarrow> sharedSchemas \<Rightarrow> ParsedTable list \<Rightarrow> node \<Rightarrow> ParsedTable list" where
  "secondPass rnd shared tbls n =
     (case tableDeclaration n of
        None \<Rightarrow> tbls
      | Some declaration \<Rightarrow>
          (case parseTableFromAST rnd declaration (length tbls) shared of
             None \<Rightarrow> tbls
           | Some t \<Rightarrow> tbls @ [t]))"

text \<open>Third pass: declarations whose first declarator calls \<open>relations\<close>.\<close>

definition thirdPass :: "node \<Rightarrow> ParsedRelationship list" where
  "thirdPass n =
     (case n of
        VariableDeclaration (declaration # _) \<Rightarrow>
          (case decl_init declaration of
             Some (CallExpression callee args) \<Rightarrow>
               if callee = Identifier ''relations'' then parseRelationsFromAST declaration
               else []
           | _ \<Rightarrow> [])
      | _ \<Rightarrow> [])"

text \<open>Fourth pass: declarations whose first declarator calls \<open>index\<close> or \<open>uniqueIndex\<close>.\<close>

definition indexDeclaration :: "node \<Rightarrow> node option" where
  \<comment> \<open>the declarator that the callback of the fourth pass hands to \<open>parseIndexFromAST\<close>\<close>
  "indexDeclaration n =
     (case n of
        VariableDeclaration (declaration # _) \<Rightarrow>
          (case decl_init declaration of
             Some (CallExpression (Identifier name) args) \<Rightarrow>
               if name \<in> set [''index'', ''uniqueIndex''] then Some declaration else None
           | _ \<Rightarrow> None)
      | _ \<Rightarrow> None)"

definition fourthPass :: "ParsedTable list \<Rightarrow> node \<Rightarrow> ParsedTable list" where
  "fourthPass tbls n =
     (case indexDeclaration n of
        None \<Rightarrow> tbls
      | Some declaration \<Rightarrow> parseIndexFromAST declaration tbls)"

text \<open>The relationships of the inline references: one for every column with a reference.\<close>

definition columnRelationship :: "ParsedTable \<Rightarrow> ParsedColumn \<Rightarrow> ParsedRelationship list" where
  "columnRelationship t column =
     (case col_references column of
        None \<Rightarrow> []
      | Some r \<Rightarrow>
          [\<lparr> rel_id = generateRelationshipId (tbl_id t) (col_name column) (ref_table r),
             rel_source = tbl_id t, rel_target = ref_table r,
             sourceColumn = col_name column, targetColumn = ref_column r \<rparr>])"

definition inlineRelationships :: "ParsedTable list \<Rightarrow> ParsedRelationship list" where
  "inlineRelationships tbls =
     concat (map (\<lambda>t. concat (map (columnRelationship t) (tbl_columns t))) tbls)"

text \<open>The part of \<open>parseDrizzleSchema\<close> that follows the call of the external parser.\<close>

definition parseDrizzleAST :: "(nat \<Rightarrow> real) \<Rightarrow> node \<Rightarrow> ParseResult" where
  "parseDrizzleAST rnd ast =
     (let nodes = walkAST ast;
          (enms, shared) = foldl firstPass ([], []) nodes;
          tbls0 = foldl (secondPass rnd shared) [] nodes;
          rels0 = concat (map thirdPass nodes);
          tbls = foldl fourthPass tbls0 nodes;
          rels = rels0 @ inlineRelationships tbls
      in if length tbls = 0 \<and> length enms = 0
         then Failure ''No valid Drizzle tables or enums found in the schema''
         else Success \<lparr> tables = tbls, relationships = rels, enums = enms \<rparr>)"

subsection \<open>The fallback parser\<close>

definition drizzleEnumRegex :: rx where
  \<comment> \<open>\<open>/export const (\w+) = pgEnum\('[^']+',\s*\[([^\]]+)\]/g\<close>\<close>
  "drizzleEnumRegex =
     seqs [Lit ''export const '', Group 1 (Plus Word), Lit '' = pgEnum('', Lit [CHR 0x27],
           Plus (Neg (Chars [CHR 0x27])), Lit [CHR 0x27], Lit '','', Star Space, Lit ''['',
           Group 2 (Plus (Neg (Chars '']''))), Lit '']'']"

definition dialectPrefix :: rx where
  \<comment> \<open>\<open>(?:pg|sqlite|mysql)\<close>\<close>
  "dialectPrefix = Alt (Lit ''pg'') (Alt (Lit ''sqlite'') (Lit ''mysql''))"

definition tableRegex :: rx where
  \<comment> \<open>\<open>/export const (\w+) = (?:(?:pg|sqlite|mysql)Table|(?:pg|sqlite|mysql)TableCreator(?:\([^)]+\))?)\('(\w+)',\s*{([^}]+)}/gs\<close>\<close>
  "tableRegex =
     seqs [Lit ''export const '', Group 1 (Plus Word), Lit '' = '',
           Alt (seqs [dialectPrefix, Lit ''Table''])
               (seqs [dialectPrefix, Lit ''TableCreator'',
                      Opt (seqs [Lit ''('', Plus (Neg (Chars '')'')), Lit '')''])]),
           Lit ''('', Lit [CHR 0x27], Group 2 (Plus Word), Lit [CHR 0x27], Lit '','',
           Star Space, Lit ''{'', Group 3 (Plus (Neg (Chars ''}''))), Lit ''}'']"

definition columnRegex :: rx where
  \<comment> \<open>\<open>/(\w+):\s*(\w+)\([^)]*\)([^,\n]*)/g\<close>\<close>
  "columnRegex =
     seqs [Group 1 (Plus Word), Lit '':'', Star Space, Group 2 (Plus Word), Lit ''('',
           Star (Neg (Chars '')'')), Lit '')'', Group 3 (Star (Neg (Chars [CHR '','', CHR 0x0A])))]"

definition fallbackColumn :: "rmatch \<Rightarrow> ParsedColumn" where
  "fallbackColumn m =
     (let columnName = grp_str m 1;
          columnType = grp_str m 2;
          modifiers = grp_str m 3
      in case parseColumnModifiers modifiers of
           (primaryKey, uniq, notNull, hasDefault) \<Rightarrow>
             \<lparr> col_name = columnName, col_type = TypeName columnType,
               isPrimaryKey = primaryKey,
               isUnique = uniq, isNotNull = notNull,
               col_references = extractReferences modifiers, defaultValue = None \<rparr>)"

text \<open>One round of the loop over the table matches.\<close>

definition fallbackTable :: "(nat \<Rightarrow> real) \<Rightarrow> ParsedTable list \<Rightarrow> rmatch \<Rightarrow> ParsedTable list" where
  "fallbackTable rnd tbls m =
     tbls @ [\<lparr> tbl_id = grp_str m 1, tbl_name = grp_str m 2,
                tbl_columns = map fallbackColumn (rx_exec_all columnRegex (grp_str m 3)),
                tbl_indexes = [],
                tbl_position = generateTablePosition rnd (length tbls) \<rparr>]"

text \<open>
  \<open>parseDrizzleSchemaFallback\<close>: as in the block-dialect fallback parser, no step of the
  \<open>try\<close> block throws on a string, and the block ends with the only \<open>return\<close> of a
  result.
\<close>

definition parseDrizzleSchemaFallback :: "(nat \<Rightarrow> real) \<Rightarrow> string \<Rightarrow> ParseResult" where
  "parseDrizzleSchemaFallback rnd schemaCode =
     (let enms = map (\<lambda>m. \<lparr> enum_name = grp_str m 1,
                            enum_values = map (\<lambda>v. strip_quotes (trim v))
                                              (split (grp_str m 2) (CHR '','')) \<rparr>)
                     (rx_exec_all drizzleEnumRegex schemaCode);
          tbls = foldl (fallbackTable rnd) [] (rx_exec_all tableRegex schemaCode)
      in Success \<lparr> tables = tbls, relationships = inlineRelationships tbls, enums = enms \<rparr>)"

subsection \<open>The structural parser\<close>

text \<open>
  \<open>parseDrizzleSchema\<close>. The external parser is a parameter: \<open>acorn code\<close> is the syntax
  tree of \<open>code\<close>, or \<open>None\<close> when the parser throws a syntax error. On a well-formed
  tree the passes throw only inside \<open>parseTableFromAST\<close>, which has a \<open>catch\<close> of its own,
  so the outer \<open>catch\<close> is not entered.
\<close>

definition parseDrizzleSchema ::
  "(string \<Rightarrow> node option) \<Rightarrow> (nat \<Rightarrow> real) \<Rightarrow> string \<Rightarrow> ParseResult" where
  "parseDrizzleSchema acorn rnd schemaCode =
     (if schemaCode = [] then Failure ''Invalid schema code provided''
      else let cleanedCode = cleanCode schemaCode
           in if cleanedCode = [] then Failure ''Schema code is empty after cleaning''
              else if \<not> str_includes cleanedCode ''pgTable'' \<and>
                      \<not> str_includes cleanedCode ''mysqlTable'' \<and>
                      \<not> str_includes cleanedCode ''sqliteTable''
              then Failure ''No Drizzle table definitions found. Make sure you have pgTable(), mysqlTable(), or sqliteTable() calls.''
              else (case acorn cleanedCode of
                      None \<Rightarrow> parseDrizzleSchemaFallback rnd schemaCode
                    | Some ast \<Rightarrow> parseDrizzleAST rnd ast))"

subsection \<open>Example input: a schema of enums only\<close>

definition draw_half :: "nat \<Rightarrow> real" where
  \<comment> \<open>a random source whose every draw is 1/2\<close>
  "draw_half i = 1 / 2"

definition enum_only_schema :: string where
  "enum_only_schema = ''export const roleEnum = pgEnum('role', ['admin', 'user']);''"

definition enum_only_ast :: node where
  "enum_only_ast =
     Program
       [ExportNamedDeclaration
          (Some (VariableDeclaration
             [VariableDeclarator (Identifier ''roleEnum'')
                (Some (CallExpression (Identifier ''pgEnum'')
                   [Literal (LStr ''role''),
                    ArrayExpression [Some (Literal (LStr ''admin'')),
                                     Some (Literal (LStr ''user''))]]))]))
          []]"

subsection \<open>Example input: native types\<close>

definition native_type_schema :: string where
  \<comment> \<open>two fields of the example schema of the repository\<close>
  "native_type_schema =
     ''model Post {\<newline>  title String @db.VarChar(255)\<newline>  content String? @db.Text\<newline>}''"

section \<open>Results up to the random part of the positions\<close>

text \<open>
  Of the position of a table only the \<open>x\<close> coordinate depends on the random source.
  \<open>forgetJitter\<close> sets it to zero in every table of a result.
\<close>

definition forgetX :: "ParsedTable \<Rightarrow> ParsedTable" where
  "forgetX t = t\<lparr> tbl_position := (tbl_position t)\<lparr> pos_x := 0 \<rparr> \<rparr>"

definition forgetJitter :: "ParseResult \<Rightarrow> ParseResult" where
  "forgetJitter r =
     (case r of
        Success d \<Rightarrow> Success (d\<lparr> tables := map forgetX (tables d) \<rparr>)
      | Failure message \<Rightarrow> Failure message)"

subsection \<open>Example input: a table with an inline reference and a relations declaration\<close>

text \<open>
  The syntax tree of
  \<^verbatim>\<open>export const posts = pgTable('posts', {
    authorId: integer('author_id').references(() => users.id) });
  export const postsRelations = relations(posts, ({ one }) => ({
    author: one(users, { fields: [posts.authorId, posts.tenantId],
                         references: [users.id, users.tenantId] }) }));\<close>
\<close>

definition ex_posts_table :: node where
  "ex_posts_table =
     ExportNamedDeclaration
       (Some (VariableDeclaration
          [VariableDeclarator (Identifier ''posts'')
             (Some (CallExpression (Identifier ''pgTable'')
                [Literal (LStr ''posts''),
                 ObjectExpression
                   [Property (Identifier ''authorId'')
                      (CallExpression
                         (MemberExpression
                            (CallExpression (Identifier ''integer'') [Literal (LStr ''author_id'')])
                            (Identifier ''references''))
                         [ArrowFunctionExpression []
                            (MemberExpression (Identifier ''users'') (Identifier ''id''))])]]))]))
       []"

definition ex_relations_config :: "node list" where
  "ex_relations_config =
     [Property (Identifier ''fields'')
        (ArrayExpression
           [Some (MemberExpression (Identifier ''posts'') (Identifier ''authorId'')),
            Some (MemberExpression (Identifier ''posts'') (Identifier ''tenantId''))]),
      Property (Identifier ''references'')
        (ArrayExpression
           [Some (MemberExpression (Identifier ''users'') (Identifier ''id'')),
            Some (MemberExpression (Identifier ''users'') (Identifier ''tenantId''))])]"

definition ex_relations_decl :: node where
  "ex_relations_decl =
     VariableDeclarator (Identifier ''postsRelations'')
       (Some (CallExpression (Identifier ''relations'')
          [Identifier ''posts'',
           ArrowFunctionExpression
             [OtherNode ''ObjectPattern'' [Property (Identifier ''one'') (Identifier ''one'')]]
             (ObjectExpression
                [Property (Identifier ''author'')
                   (CallExpression (Identifier ''one'')
                      [Identifier ''users'', ObjectExpression ex_relations_config])])]))"

definition ex_posts_ast :: node where
  "ex_posts_ast =
     Program [ex_posts_table,
              ExportNamedDeclaration (Some (VariableDeclaration [ex_relations_decl])) []]"

subsection \<open>Chains of method calls\<close>

text \<open>
  \<open>chainOf base [(m1, args1), (m2, args2)]\<close> is the syntax tree of the expression
  \<open>base.m1(args1).m2(args2)\<close>: the method calls are applied to \<open>base\<close> from left to right.
  It serves to state what the definition chain of a column includes.
\<close>

definition methodCall :: "node \<Rightarrow> string \<times> node list \<Rightarrow> node" where
  "methodCall e call = CallExpression (MemberExpression e (Identifier (fst call))) (snd call)"

definition chainOf :: "node \<Rightarrow> (string \<times> node list) list \<Rightarrow> node" where
  "chainOf base calls = foldl methodCall base calls"

definition ex_two_references :: node where
  \<comment> \<open>\<open>y: integer('y').references(() => a.id).references(() => b.id)\<close>\<close>
  "ex_two_references =
     Property (Identifier ''y'')
       (chainOf (CallExpression (Identifier ''integer'') [Literal (LStr ''y'')])
          [(''references'',
            [ArrowFunctionExpression [] (MemberExpression (Identifier ''a'') (Identifier ''id''))]),
           (''references'',
            [ArrowFunctionExpression [] (MemberExpression (Identifier ''b'') (Identifier ''id''))])])"

definition ex_author_column :: ParsedColumn where
  "ex_author_column =
     \<lparr> col_name = ''authorId'', col_type = TypeName ''integer(author_id)'',
       isPrimaryKey = False, isUnique = False, isNotNull = False,
       col_references = Some \<lparr> ref_table = ''users'', ref_column = ''id'' \<rparr>,
       defaultValue = None \<rparr>"

subsection \<open>Example input: columns without a type\<close>

definition untyped_field_schema :: string where
  "untyped_field_schema = ''model A {\<newline>  x ? @relation\<newline>}''"

definition ex_untyped_ast :: node where
  \<comment> \<open>\<open>export const t = pgTable('t', { id: someVar });\<close>\<close>
  "ex_untyped_ast =
     Program
       [ExportNamedDeclaration
          (Some (VariableDeclaration
             [VariableDeclarator (Identifier ''t'')
                (Some (CallExpression (Identifier ''pgTable'')
                   [Literal (LStr ''t''),
                    ObjectExpression [Property (Identifier ''id'') (Identifier ''someVar'')]]))]))
          []]"

definition ex_id_field :: PrismaField where
  \<comment> \<open>the field that \<open>parseField\<close> reads from \<open>id String @id\<close>\<close>
  "ex_id_field =
     \<lparr> fld_name = ''id'', fld_type = ''String'', fld_isArray = False, fld_isOptional = False,
       fld_attributes = [\<lparr> attr_name = ''id'', attr_args = [] \<rparr>] \<rparr>"

definition ex_serial_property :: node where
  \<comment> \<open>\<open>id: serial('id').primaryKey()\<close>\<close>
  "ex_serial_property =
     Property (Identifier ''id'')
       (CallExpression
          (MemberExpression (CallExpression (Identifier ''serial'') [Literal (LStr ''id'')])
             (Identifier ''primaryKey''))
          [])"


section \<open>Verified properties\<close>

subsection \<open>Block dialect: implicit relations\<close>

text \<open>
  Claim C7. A field of a model whose type names a model, that carries no relation
  attribute and is not an array, adds exactly one relationship when the model has a field
  named \<open><fieldName>Id\<close>, \<open><fieldName>_id\<close> or, ignoring case, \<open><fieldName>id\<close> and the
  target model has a field with the id attribute: its source column is the first such
  foreign-key field, its target column the first id field of the target model. When one of
  the two is missing the field adds no relationship. The relationships of the fields before
  and after it are not affected.
\<close>

theorem C7_implicit_relation:
  assumes fields: "mdl_fields model = pre @ field # post"
    and target: "find (\<lambda>m. mdl_name m = fld_type field) allModels = Some targetModel"
    and no_attr: "find_attr ''relation'' field = None"
    and single: "\<not> fld_isArray field"
  shows "extractRelationships model allModels =
           concat (map (fieldRelationships model allModels) pre) @
           (case (find (\<lambda>f. fld_name f = fld_name field @ ''Id'' \<or>
                              fld_name f = fld_name field @ ''_id'' \<or>
                              toLowerCase (fld_name f) = toLowerCase (fld_name field) @ ''id'')
                       (mdl_fields model),
                  find (\<lambda>f. list_ex (\<lambda>a. attr_name a = ''id'') (fld_attributes f))
                       (mdl_fields targetModel)) of
              (Some fkField, Some targetPk) \<Rightarrow>
                [\<lparr> rel_id = ''rel-'' @ mdl_name model @ ''-'' @ fld_name fkField @ ''-'' @
                            fld_type field,
                   rel_source = mdl_name model, rel_target = fld_type field,
                   sourceColumn = fld_name fkField, targetColumn = fld_name targetPk \<rparr>]
            | _ \<Rightarrow> []) @
           concat (map (fieldRelationships model allModels) post)"
proof -
  have one: "fieldRelationships model allModels field =
           (case (find (\<lambda>f. fld_name f = fld_name field @ ''Id'' \<or>
                              fld_name f = fld_name field @ ''_id'' \<or>
                              toLowerCase (fld_name f) = toLowerCase (fld_name field) @ ''id'')
                       (mdl_fields model),
                  find (\<lambda>f. list_ex (\<lambda>a. attr_name a = ''id'') (fld_attributes f))
                       (mdl_fields targetModel)) of
              (Some fkField, Some targetPk) \<Rightarrow>
                [\<lparr> rel_id = ''rel-'' @ mdl_name model @ ''-'' @ fld_name fkField @ ''-'' @
                            fld_type field,
                   rel_source = mdl_name model, rel_target = fld_type field,
                   sourceColumn = fld_name fkField, targetColumn = fld_name targetPk \<rparr>]
            | _ \<Rightarrow> [])"
    using target no_attr single
    by (simp add: fieldRelationships_def mkRelationship_def generateRelationshipId_def
             split: option.splits)
  show ?thesis
    using one by (simp add: extractRelationships_def fields)
qed

theorem C7_implicit_relation_witness:
  "parseModels blog_schema = [ex_user, ex_post] \<and>
   extractRelationships ex_post [ex_user, ex_post] =
     [\<lparr> rel_id = ''rel-Post-authorId-User'', rel_source = ''Post'', rel_target = ''User'',
        sourceColumn = ''authorId'', targetColumn = ''id'' \<rparr>]"
proof -
  have parsed: "parseModels blog_schema = [ex_user, ex_post]"
    by code_simp
  have h1: "mdl_fields ex_post =
              [\<lparr> fld_name = ''authorId'', fld_type = ''String'', fld_isArray = False,
                 fld_isOptional = False, fld_attributes = [] \<rparr>] @ ex_author # []"
    by (simp add: ex_post_def)
  have h2: "find (\<lambda>m. mdl_name m = fld_type ex_author) [ex_user, ex_post] = Some ex_user"
    by (simp add: ex_user_def ex_author_def)
  have h3: "find_attr ''relation'' ex_author = None"
    by (simp add: find_attr_def ex_author_def)
  have h4: "\<not> fld_isArray ex_author"
    by (simp add: ex_author_def)
  have "extractRelationships ex_post [ex_user, ex_post] =
     [\<lparr> rel_id = ''rel-Post-authorId-User'', rel_source = ''Post'', rel_target = ''User'',
        sourceColumn = ''authorId'', targetColumn = ''id'' \<rparr>]"
    using C7_implicit_relation [OF h1 h2 h3 h4]
    by (simp add: fieldRelationships_def ex_post_def ex_user_def ex_author_def)
  with parsed show ?thesis by simp
qed

subsection \<open>Fluent dialect: the keyword check\<close>

text \<open>
  Claim C10. When the cleaned text contains none of \<open>pgTable\<close>, \<open>mysqlTable\<close> and
  \<open>sqliteTable\<close>, \<open>parseDrizzleSchema\<close> returns a failure whatever the external parser
  would return: the message is one of the three of the input checks, never the one of
  the check for zero tables and zero enums.
\<close>

theorem C10_keyword_check:
  assumes "\<not> str_includes (cleanCode schemaCode) ''pgTable''"
    and "\<not> str_includes (cleanCode schemaCode) ''mysqlTable''"
    and "\<not> str_includes (cleanCode schemaCode) ''sqliteTable''"
  shows "parseDrizzleSchema acorn rnd schemaCode =
           Failure (if schemaCode = [] then ''Invalid schema code provided''
                    else if cleanCode schemaCode = [] then ''Schema code is empty after cleaning''
                    else ''No Drizzle table definitions found. Make sure you have pgTable(), mysqlTable(), or sqliteTable() calls.'') \<and>
         parseDrizzleSchema acorn rnd schemaCode \<noteq>
           Failure ''No valid Drizzle tables or enums found in the schema''"
  using assms by (simp add: parseDrizzleSchema_def Let_def)

text \<open>
  A schema of one enum and no table is rejected, although the passes of the structural
  parser find the enum in its syntax tree.
\<close>

theorem C10_keyword_check_witness:
  "\<not> str_includes (cleanCode enum_only_schema) ''pgTable'' \<and>
   \<not> str_includes (cleanCode enum_only_schema) ''mysqlTable'' \<and>
   \<not> str_includes (cleanCode enum_only_schema) ''sqliteTable'' \<and>
   parseDrizzleSchema (\<lambda>code. Some enum_only_ast) draw_half enum_only_schema =
     Failure ''No Drizzle table definitions found. Make sure you have pgTable(), mysqlTable(), or sqliteTable() calls.'' \<and>
   parseDrizzleAST draw_half enum_only_ast =
     Success \<lparr> tables = [], relationships = [],
               enums = [\<lparr> enum_name = ''roleEnum'', enum_values = [''admin'', ''user''] \<rparr>] \<rparr>"
proof -
  have h1: "\<not> str_includes (cleanCode enum_only_schema) ''pgTable''"
    by code_simp
  have h2: "\<not> str_includes (cleanCode enum_only_schema) ''mysqlTable''"
    by code_simp
  have h3: "\<not> str_includes (cleanCode enum_only_schema) ''sqliteTable''"
    by code_simp
  have nonempty: "enum_only_schema \<noteq> [] \<and> cleanCode enum_only_schema \<noteq> []"
    by code_simp
  have ast: "parseDrizzleAST draw_half enum_only_ast =
     Success \<lparr> tables = [], relationships = [],
               enums = [\<lparr> enum_name = ''roleEnum'', enum_values = [''admin'', ''user''] \<rparr>] \<rparr>"
    by code_simp
  show ?thesis
    using C10_keyword_check [OF h1 h2 h3, of "\<lambda>code. Some enum_only_ast" draw_half]
      h1 h2 h3 nonempty ast
    by simp
qed

subsection \<open>The fallback parsers\<close>

text \<open>
  Claim C8. The fluent-dialect fallback parser returns the success variant on every input
  string, also when it finds no table and no enum.
\<close>

theorem C8_fallback_succeeds:
  "(\<exists>schema. parseDrizzleSchemaFallback rnd schemaCode = Success schema) \<and>
   parseDrizzleSchemaFallback rnd ''const x = 1;'' =
     Success \<lparr> tables = [], relationships = [], enums = [] \<rparr>"
proof
  show "\<exists>schema. parseDrizzleSchemaFallback rnd schemaCode = Success schema"
    by (simp add: parseDrizzleSchemaFallback_def Let_def)
  have "rx_exec_all drizzleEnumRegex ''const x = 1;'' = []"
    by code_simp
  moreover have "rx_exec_all tableRegex ''const x = 1;'' = []"
    by code_simp
  ultimately show "parseDrizzleSchemaFallback rnd ''const x = 1;'' =
     Success \<lparr> tables = [], relationships = [], enums = [] \<rparr>"
    by (simp add: parseDrizzleSchemaFallback_def inlineRelationships_def)
qed

text \<open>
  Claim C3 says that the two fallback parsers differ on an empty result. They do not: the
  block-dialect fallback parser has no input on which it returns the failure variant.
\<close>

theorem C3_counterexample:
  "\<not> (\<exists>rnd schemaCode message. parsePrismaSchemaFallback rnd schemaCode = Failure message)"
  by (simp add: parsePrismaSchemaFallback_def Let_def)

text \<open>
  Claim C3, amended. The two fallback parsers do not differ: each returns the success
  variant on every input, also when it finds no table and no enum.
\<close>

theorem C3_fallback_policies:
  "(\<exists>schema. parseDrizzleSchemaFallback rnd schemaCode = Success schema) \<and>
   (\<exists>schema. parsePrismaSchemaFallback rnd schemaCode = Success schema) \<and>
   parseDrizzleSchemaFallback rnd ''enum x'' =
     Success \<lparr> tables = [], relationships = [], enums = [] \<rparr> \<and>
   parsePrismaSchemaFallback rnd ''enum x'' =
     Success \<lparr> tables = [], relationships = [], enums = [] \<rparr>"
proof -
  have a: "\<exists>schema. parseDrizzleSchemaFallback rnd schemaCode = Success schema"
    by (simp add: parseDrizzleSchemaFallback_def Let_def)
  have b: "\<exists>schema. parsePrismaSchemaFallback rnd schemaCode = Success schema"
    by (simp add: parsePrismaSchemaFallback_def Let_def)
  have scans: "rx_exec_all drizzleEnumRegex ''enum x'' = [] \<and>
               rx_exec_all tableRegex ''enum x'' = [] \<and>
               rx_exec_all enumRegex ''enum x'' = [] \<and>
               rx_exec_all modelRegex ''enum x'' = []"
    by code_simp
  have c: "parseDrizzleSchemaFallback rnd ''enum x'' =
     Success \<lparr> tables = [], relationships = [], enums = [] \<rparr>"
    using scans by (simp add: parseDrizzleSchemaFallback_def inlineRelationships_def)
  have d: "parsePrismaSchemaFallback rnd ''enum x'' =
     Success \<lparr> tables = [], relationships = [], enums = [] \<rparr>"
    using scans by (simp add: parsePrismaSchemaFallback_def)
  from a b c d show ?thesis by simp
qed

subsection \<open>Block dialect: native types\<close>

text \<open>
  Claim C4 says that a field with an attribute \<open>@db.<NativeType>(args)\<close> gets its column
  type from the native type. \<open>convertFieldToColumn\<close> has the code for this, but the pattern
  with which \<open>parseField\<close> reads the attributes stops at the dot: whatever follows
  \<open>@db.\<close>, the attribute read is \<open>db\<close> without arguments, and \<open>convertFieldToColumn\<close>
  overrides the type only for a \<open>db\<close> attribute with an argument. So the fields
  \<open>title String @db.VarChar(255)\<close> and \<open>content String? @db.Text\<close> both come out with
  the type \<open>text\<close> of the dictionary, not with \<open>varchar(255)\<close> and \<open>text\<close> of the
  native types.
\<close>

theorem C4_native_type_ignored:
  "rx_at attrRegex pos (''@db.'' @ rest) = Some (3, [(1, ''db'')]) \<and>
   map_option fld_attributes (parseField ''title String @db.VarChar(255)'') =
     Some [\<lparr> attr_name = ''db'', attr_args = [] \<rparr>] \<and>
   (case parsePrismaSchema draw_half native_type_schema of
      Success d \<Rightarrow> map (\<lambda>t. map (\<lambda>c. (col_name c, col_type c)) (tbl_columns t)) (tables d)
    | Failure message \<Rightarrow> []) =
     [[(''title'', TypeName ''text''), (''content'', TypeName ''text'')]]"
proof -
  have range: "rev [1 ..< Suc (Suc (Suc 0))] = [2, 1]"
    by (simp add: upt_rec)
  have a: "rx_at attrRegex pos (''@db.'' @ rest) = Some (3, [(1, ''db'')])"
    by (simp add: rx_at_def attrRegex_def startsWith_def is_word_char_def range)
  have b: "map_option fld_attributes (parseField ''title String @db.VarChar(255)'') =
     Some [\<lparr> attr_name = ''db'', attr_args = [] \<rparr>]"
    by code_simp
  have c: "(case parsePrismaSchema draw_half native_type_schema of
      Success d \<Rightarrow> map (\<lambda>t. map (\<lambda>c. (col_name c, col_type c)) (tbl_columns t)) (tables d)
    | Failure message \<Rightarrow> []) =
     [[(''title'', TypeName ''text''), (''content'', TypeName ''text'')]]"
    by code_simp
  from a b c show ?thesis by simp
qed

subsection \<open>Determinism up to positions\<close>

lemma forgetX_mk:
  "forgetX \<lparr> tbl_id = i, tbl_name = n, tbl_columns = cs, tbl_indexes = ixs,
             tbl_position = generateTablePosition rnd k \<rparr> =
   \<lparr> tbl_id = i, tbl_name = n, tbl_columns = cs, tbl_indexes = ixs,
      tbl_position = \<lparr> pos_x = 0, pos_y = 50 + real (k div 3) * 200 \<rparr> \<rparr>"
  by (simp add: forgetX_def generateTablePosition_def)

lemma forgetX_simps [simp]:
  "tbl_id (forgetX t) = tbl_id t"
  "tbl_columns (forgetX t) = tbl_columns t"
  "tbl_indexes (forgetX t) = tbl_indexes t"
  by (simp_all add: forgetX_def)

lemma same_ids:
  assumes "map forgetX ts = map forgetX ts'"
  shows "map tbl_id ts = map tbl_id ts'"
proof -
  have "map tbl_id ts = map tbl_id (map forgetX ts)" by simp
  also have "\<dots> = map tbl_id (map forgetX ts')" by (simp only: assms)
  also have "\<dots> = map tbl_id ts'" by simp
  finally show ?thesis .
qed

lemma same_list_ex:
  assumes "map forgetX ts = map forgetX ts'"
  shows "list_ex (\<lambda>u. tbl_id u = n) ts = list_ex (\<lambda>u. tbl_id u = n) ts'"
proof -
  have "list_ex (\<lambda>u. tbl_id u = n) ts = (n \<in> set (map tbl_id ts))"
    by (auto simp: list_ex_iff)
  also have "\<dots> = (n \<in> set (map tbl_id ts'))"
    by (simp only: same_ids [OF assms])
  also have "\<dots> = list_ex (\<lambda>u. tbl_id u = n) ts'"
    by (auto simp: list_ex_iff)
  finally show ?thesis .
qed

lemma forgetX_add_index:
  "forgetX t = forgetX t' \<Longrightarrow>
   forgetX (t\<lparr> tbl_indexes := tbl_indexes t @ [ix] \<rparr>) =
   forgetX (t'\<lparr> tbl_indexes := tbl_indexes t' @ [ix] \<rparr>)"
  by (cases t, cases t') (simp add: forgetX_def)

lemma addIndex_same:
  "map forgetX ts = map forgetX ts' \<Longrightarrow>
   map forgetX (addIndex n ix ts) = map forgetX (addIndex n ix ts')"
proof (induction ts arbitrary: ts')
  case Nil
  then show ?case by simp
next
  case (Cons t ts)
  then obtain t' us where ts': "ts' = t' # us" and hd: "forgetX t = forgetX t'"
    and tl: "map forgetX ts = map forgetX us"
    by (cases ts') auto
  have id: "tbl_id t = tbl_id t'"
    using hd by (metis forgetX_simps(1))
  show ?case
    using Cons.IH [OF tl] same_list_ex [OF tl, of n] hd tl id forgetX_add_index [OF hd, of ix]
    by (simp add: ts')
qed

lemma parseIndexFromAST_same:
  assumes "map forgetX ts = map forgetX ts'"
  shows "map forgetX (parseIndexFromAST d ts) = map forgetX (parseIndexFromAST d ts')"
proof (cases "indexParts d")
  case None
  then show ?thesis
    using assms by (simp add: parseIndexFromAST_def)
next
  case (Some p)
  obtain n ix where p: "p = (n, ix)"
    by (cases p)
  show ?thesis
    using addIndex_same [OF assms, of n ix] by (simp add: parseIndexFromAST_def Some p)
qed

lemma fourthPass_same:
  assumes "map forgetX ts = map forgetX ts'"
  shows "map forgetX (fourthPass ts n) = map forgetX (fourthPass ts' n)"
proof (cases "indexDeclaration n")
  case None
  then show ?thesis
    using assms by (simp add: fourthPass_def)
next
  case (Some d)
  show ?thesis
    using parseIndexFromAST_same [OF assms, of d] by (simp add: fourthPass_def Some)
qed

lemma fourthPass_fold_same:
  "map forgetX ts = map forgetX ts' \<Longrightarrow>
   map forgetX (foldl fourthPass ts ns) = map forgetX (foldl fourthPass ts' ns)"
proof (induction ns arbitrary: ts ts')
  case Nil
  then show ?case by simp
next
  case (Cons n ns)
  show ?case
    using Cons.IH [OF fourthPass_same [OF Cons.prems, of n]] by simp
qed

lemma parseTableFromAST_same:
  "map_option forgetX (parseTableFromAST rnd d k sh) =
   map_option forgetX (parseTableFromAST rnd' d k sh)"
  by (cases "tableParts d") (auto simp: parseTableFromAST_def forgetX_mk split: option.splits)

lemma secondPass_same:
  assumes "map forgetX ts = map forgetX ts'"
  shows "map forgetX (secondPass rnd sh ts n) = map forgetX (secondPass rnd' sh ts' n)"
proof (cases "tableDeclaration n")
  case None
  then show ?thesis
    using assms by (simp add: secondPass_def)
next
  case (Some d)
  have len: "length ts = length ts'"
    using assms by (rule map_eq_imp_length_eq)
  have "map forgetX (case parseTableFromAST rnd d (length ts') sh of
                       None \<Rightarrow> ts | Some t \<Rightarrow> ts @ [t]) =
        map forgetX (case parseTableFromAST rnd' d (length ts') sh of
                       None \<Rightarrow> ts' | Some t \<Rightarrow> ts' @ [t])"
    using assms parseTableFromAST_same [of rnd d "length ts'" sh rnd']
    by (cases "parseTableFromAST rnd d (length ts') sh";
        cases "parseTableFromAST rnd' d (length ts') sh") simp_all
  then show ?thesis
    by (simp add: secondPass_def Some len)
qed

lemma secondPass_fold_same:
  "map forgetX ts = map forgetX ts' \<Longrightarrow>
   map forgetX (foldl (secondPass rnd sh) ts ns) = map forgetX (foldl (secondPass rnd' sh) ts' ns)"
proof (induction ns arbitrary: ts ts')
  case Nil
  then show ?case by simp
next
  case (Cons n ns)
  show ?case
    using Cons.IH [OF secondPass_same [OF Cons.prems, of rnd sh n rnd']] by simp
qed

lemma columnRelationship_forgetX:
  "columnRelationship (forgetX t) = columnRelationship t"
  by (rule ext) (simp add: columnRelationship_def split: option.splits)

lemma inlineRelationships_forgetX:
  "inlineRelationships (map forgetX ts) = inlineRelationships ts"
  by (simp add: inlineRelationships_def columnRelationship_forgetX comp_def)

lemma inlineRelationships_same:
  "map forgetX ts = map forgetX ts' \<Longrightarrow> inlineRelationships ts = inlineRelationships ts'"
  by (metis inlineRelationships_forgetX)

lemma parseDrizzleAST_same:
  "forgetJitter (parseDrizzleAST rnd ast) = forgetJitter (parseDrizzleAST rnd' ast)"
proof -
  obtain enms sh where first: "foldl firstPass ([], []) (walkAST ast) = (enms, sh)"
    by (cases "foldl firstPass ([], []) (walkAST ast)")
  let ?T = "\<lambda>r. foldl fourthPass (foldl (secondPass r sh) [] (walkAST ast)) (walkAST ast)"
  have same: "map forgetX (?T rnd) = map forgetX (?T rnd')"
    by (intro fourthPass_fold_same secondPass_fold_same) simp
  have len: "length (?T rnd) = length (?T rnd')"
    using same by (rule map_eq_imp_length_eq)
  show ?thesis
  proof (cases "length (?T rnd') = 0 \<and> length enms = 0")
    case True
    then show ?thesis
      using len by (simp add: parseDrizzleAST_def first forgetJitter_def Let_def)
  next
    case False
    then have "\<not> (length (?T rnd) = 0 \<and> length enms = 0)"
      using len by simp
    with False show ?thesis
      using same inlineRelationships_same [OF same]
      by (simp add: parseDrizzleAST_def first forgetJitter_def Let_def)
  qed
qed

lemma fallbackTable_fold_same:
  "map forgetX ts = map forgetX ts' \<Longrightarrow>
   map forgetX (foldl (fallbackTable rnd) ts ms) = map forgetX (foldl (fallbackTable rnd') ts' ms)"
proof (induction ms arbitrary: ts ts')
  case Nil
  then show ?case by simp
next
  case (Cons m ms)
  have "length ts = length ts'"
    using Cons.prems by (rule map_eq_imp_length_eq)
  then have "map forgetX (fallbackTable rnd ts m) = map forgetX (fallbackTable rnd' ts' m)"
    using Cons.prems by (simp add: fallbackTable_def forgetX_mk)
  then show ?case
    using Cons.IH by simp
qed

lemma parseDrizzleSchemaFallback_same:
  "forgetJitter (parseDrizzleSchemaFallback rnd s) = forgetJitter (parseDrizzleSchemaFallback rnd' s)"
proof -
  let ?T = "\<lambda>r. foldl (fallbackTable r) [] (rx_exec_all tableRegex s)"
  have same: "map forgetX (?T rnd) = map forgetX (?T rnd')"
    by (rule fallbackTable_fold_same) simp
  show ?thesis
    using same inlineRelationships_same [OF same]
    by (simp add: parseDrizzleSchemaFallback_def forgetJitter_def Let_def)
qed

lemma fallbackModel_fold_same:
  "map forgetX ts = map forgetX ts' \<Longrightarrow>
   map forgetX (fst (foldl (fallbackModel rnd) (ts, k) ms)) =
   map forgetX (fst (foldl (fallbackModel rnd') (ts', k) ms))"
proof (induction ms arbitrary: ts ts' k)
  case Nil
  then show ?case by simp
next
  case (Cons m ms)
  obtain us j where step: "fallbackModel rnd (ts, k) m = (us, j)"
    by (cases "fallbackModel rnd (ts, k) m")
  obtain us' j' where step': "fallbackModel rnd' (ts', k) m = (us', j')"
    by (cases "fallbackModel rnd' (ts', k) m")
  have "map forgetX us = map forgetX us' \<and> j = j'"
    using step step' Cons.prems
    by (auto simp: fallbackModel_def Let_def forgetX_mk split: if_splits)
  then show ?case
    using Cons.IH [of us us' j] step step' by simp
qed

lemma parsePrismaSchemaFallback_same:
  "forgetJitter (parsePrismaSchemaFallback rnd s) = forgetJitter (parsePrismaSchemaFallback rnd' s)"
  using fallbackModel_fold_same [of "[]" "[]" rnd 0 "rx_exec_all modelRegex s" rnd']
  by (simp add: parsePrismaSchemaFallback_def forgetJitter_def Let_def)

lemma prisma_tables_same:
  "map forgetX (concat (map (\<lambda>(model, index).
        case convertModelToTable rnd model index enms of None \<Rightarrow> [] | Some t \<Rightarrow> [t]) ps)) =
   map forgetX (concat (map (\<lambda>(model, index).
        case convertModelToTable rnd' model index enms of None \<Rightarrow> [] | Some t \<Rightarrow> [t]) ps))"
  by (induction ps)
     (auto simp: convertModelToTable_def forgetX_mk)

lemma validate_same:
  assumes "map forgetX T = map forgetX T'"
  shows "forgetJitter (if length T = 0 \<and> length E = 0 then Failure m
                       else Success \<lparr> tables = T, relationships = R, enums = E \<rparr>) =
         forgetJitter (if length T' = 0 \<and> length E = 0 then Failure m
                       else Success \<lparr> tables = T', relationships = R, enums = E \<rparr>)"
proof -
  have "(T = []) = (T' = [])"
    using assms by (metis map_is_Nil_conv)
  then show ?thesis
    using assms by (simp add: forgetJitter_def)
qed

lemma result_chain:
  "forgetJitter W = forgetJitter W' \<Longrightarrow>
   forgetJitter (if a then X else if b then Y else if c then Z else W) =
   forgetJitter (if a then X else if b then Y else if c then Z else W')"
  by simp

lemma parsePrismaSchema_same:
  "forgetJitter (parsePrismaSchema rnd s) = forgetJitter (parsePrismaSchema rnd' s)"
  unfolding parsePrismaSchema_def Let_def
  by (rule result_chain) (rule validate_same [OF prisma_tables_same])

text \<open>
  Claim C9. The random source is the only input of a parser besides the text (and, for the
  fluent dialect, the syntax tree that the external parser gives for it). Two runs on the
  same text, with any two random sources, return results that are equal in everything
  but the \<open>x\<close> coordinates of the table positions: the same tag, the same message, the
  same tables, columns, indexes, relationships and enums. This holds for both structural
  parsers and both fallback parsers.
\<close>

theorem C9_same_result_up_to_positions:
  "forgetJitter (parseDrizzleSchema acorn rnd schemaCode) =
     forgetJitter (parseDrizzleSchema acorn rnd' schemaCode) \<and>
   forgetJitter (parsePrismaSchema rnd schemaCode) =
     forgetJitter (parsePrismaSchema rnd' schemaCode) \<and>
   forgetJitter (parseDrizzleSchemaFallback rnd schemaCode) =
     forgetJitter (parseDrizzleSchemaFallback rnd' schemaCode) \<and>
   forgetJitter (parsePrismaSchemaFallback rnd schemaCode) =
     forgetJitter (parsePrismaSchemaFallback rnd' schemaCode)"
proof -
  have "forgetJitter (parseDrizzleSchema acorn rnd schemaCode) =
        forgetJitter (parseDrizzleSchema acorn rnd' schemaCode)"
    by (simp add: parseDrizzleSchema_def Let_def parseDrizzleAST_same
          parseDrizzleSchemaFallback_same split: option.splits)
  then show ?thesis
    by (simp add: parsePrismaSchema_same parseDrizzleSchemaFallback_same
          parsePrismaSchemaFallback_same)
qed

subsection \<open>Fluent dialect: the relations helper\<close>




subsection \<open>The endpoints of relationships\<close>

lemma fieldRelationships_endpoints:
  assumes "r \<in> set (fieldRelationships model allModels field)"
  shows "rel_source r = mdl_name model \<and> rel_target r \<in> set (map mdl_name allModels)"
proof (cases "find (\<lambda>m. mdl_name m = fld_type field) allModels")
  case None
  then show ?thesis
    using assms by (simp add: fieldRelationships_def)
next
  case (Some targetModel)
  then have "targetModel \<in> set allModels \<and> mdl_name targetModel = fld_type field"
    by (auto simp: find_Some_iff)
  then have target: "fld_type field \<in> set (map mdl_name allModels)"
    by force
  have mk: "rel_source (mkRelationship (mdl_name model) a (fld_type field) b) = mdl_name model \<and>
            rel_target (mkRelationship (mdl_name model) a (fld_type field) b) = fld_type field"
    for a b
    by (simp add: mkRelationship_def)
  define relationData where
    "relationData = parseRelationAttribute
       (case find_attr ''relation'' field of None \<Rightarrow> [] | Some a \<Rightarrow> attr_args a)"
  define explicit where
    "explicit = (case (rd_fields relationData, rd_references relationData) of
                   (Some flds, Some refs) \<Rightarrow>
                     map (\<lambda>i. mkRelationship (mdl_name model) (flds ! i) (fld_type field)
                                (ref_or_first refs i))
                         [0 ..< length flds]
                 | _ \<Rightarrow> [])"
  define implicit where
    "implicit =
       (case find (\<lambda>f. fld_name f = fld_name field @ ''Id'' \<or>
                        fld_name f = fld_name field @ ''_id'' \<or>
                        toLowerCase (fld_name f) = toLowerCase (fld_name field) @ ''id'')
                  (mdl_fields model) of
          None \<Rightarrow> []
        | Some fkField \<Rightarrow>
            (case find (\<lambda>f. list_ex (\<lambda>a. attr_name a = ''id'') (fld_attributes f))
                       (mdl_fields targetModel) of
               None \<Rightarrow> []
             | Some targetPk \<Rightarrow>
                 [mkRelationship (mdl_name model) (fld_name fkField) (fld_type field)
                    (fld_name targetPk)]))"
  have branches: "fieldRelationships model allModels field = explicit \<or>
                  fieldRelationships model allModels field = implicit \<or>
                  fieldRelationships model allModels field = []"
    unfolding fieldRelationships_def Some Let_def explicit_def implicit_def relationData_def
    by simp
  have e: "\<forall>x \<in> set explicit. rel_source x = mdl_name model \<and> rel_target x = fld_type field"
    unfolding explicit_def
    by (cases "rd_fields relationData"; cases "rd_references relationData") (simp_all add: mk)
  have i: "\<forall>x \<in> set implicit. rel_source x = mdl_name model \<and> rel_target x = fld_type field"
    unfolding implicit_def by (auto simp: mk split: option.splits)
  from branches e i assms have "rel_source r = mdl_name model \<and> rel_target r = fld_type field"
    by auto
  with target show ?thesis by simp
qed

lemma extractRelationships_endpoints:
  assumes "r \<in> set (extractRelationships model allModels)"
  shows "rel_source r = mdl_name model \<and> rel_target r \<in> set (map mdl_name allModels)"
  using assms fieldRelationships_endpoints
  by (auto simp: extractRelationships_def)

lemma prisma_table_ids:
  "map tbl_id (concat (map (\<lambda>(model, index).
        case convertModelToTable rnd model index enms of None \<Rightarrow> [] | Some t \<Rightarrow> [t]) ps)) =
   map (\<lambda>p. mdl_name (fst p)) ps"
  by (induction ps) (auto simp: convertModelToTable_def)

lemma success_of_checks:
  "(if a then Failure x else if b then Failure y else if c then Failure z
    else if e then Failure w else Success v) = Success d \<Longrightarrow> d = v"
  by (simp split: if_splits)

lemma parsePrismaSchema_Success:
  assumes "parsePrismaSchema rnd s = Success d"
  shows "tables d =
           concat (map (\<lambda>(model, index).
                     case convertModelToTable rnd model index (parseEnums (cleanCode s)) of
                       None \<Rightarrow> [] | Some t \<Rightarrow> [t])
                  (zip (parseModels (cleanCode s)) [0 ..< length (parseModels (cleanCode s))])) \<and>
         relationships d =
           concat (map (\<lambda>model. extractRelationships model (parseModels (cleanCode s)))
                       (parseModels (cleanCode s)))"
proof -
  have "d = \<lparr> tables =
             concat (map (\<lambda>(model, index).
                     case convertModelToTable rnd model index (parseEnums (cleanCode s)) of
                       None \<Rightarrow> [] | Some t \<Rightarrow> [t])
                  (zip (parseModels (cleanCode s)) [0 ..< length (parseModels (cleanCode s))])),
             relationships =
               concat (map (\<lambda>model. extractRelationships model (parseModels (cleanCode s)))
                       (parseModels (cleanCode s))),
             enums = parseEnums (cleanCode s) \<rparr>"
    using assms unfolding parsePrismaSchema_def Let_def by (rule success_of_checks)
  then show ?thesis by simp
qed

lemma prisma_endpoints:
  assumes "parsePrismaSchema rnd s = Success d"
  shows "list_all (\<lambda>r. rel_source r \<in> set (map tbl_id (tables d)) \<and>
                        rel_target r \<in> set (map tbl_id (tables d))) (relationships d)"
proof -
  let ?ms = "parseModels (cleanCode s)"
  have ids: "map tbl_id (tables d) = map mdl_name ?ms"
    using parsePrismaSchema_Success [OF assms]
    by (simp add: prisma_table_ids map_fst_zip_take flip: map_map [unfolded comp_def])
  have "rel_source r \<in> set (map mdl_name ?ms) \<and> rel_target r \<in> set (map mdl_name ?ms)"
    if "r \<in> set (relationships d)" for r
  proof -
    from that obtain model where "model \<in> set ?ms" "r \<in> set (extractRelationships model ?ms)"
      using parsePrismaSchema_Success [OF assms] by auto
    then show ?thesis
      using extractRelationships_endpoints [of r model ?ms] by auto
  qed
  then show ?thesis
    unfolding ids list_all_iff by blast
qed

lemma inline_sources:
  "list_all (\<lambda>r. rel_source r \<in> set (map tbl_id tbls)) (inlineRelationships tbls)"
  by (auto simp: list_all_iff inlineRelationships_def columnRelationship_def
           split: option.splits)

lemma success_of_check:
  "(if e then Failure w
    else Success \<lparr> tables = T, relationships = R @ inlineRelationships T, enums = E \<rparr>) =
   Success d \<Longrightarrow> relationships d = R @ inlineRelationships (tables d)"
  by (auto split: if_splits)

lemma parseDrizzleAST_relationships:
  assumes "parseDrizzleAST rnd ast = Success d"
  shows "relationships d = concat (map thirdPass (walkAST ast)) @ inlineRelationships (tables d)"
proof -
  obtain enms sh where first: "foldl firstPass ([], []) (walkAST ast) = (enms, sh)"
    by (cases "foldl firstPass ([], []) (walkAST ast)")
  show ?thesis
    using assms unfolding parseDrizzleAST_def Let_def first prod.case
    by (rule success_of_check)
qed

text \<open>
  Claim C5 says that every relationship of a result joins two tables of the result. The
  fluent-dialect parser does not look the target of a reference up: a \<open>posts\<close> table that
  references \<open>users.id\<close>, with no table \<open>users\<close> in the text (the relations declaration
  names it as well), gives relationships whose target is no table of the result.
\<close>

theorem C5_counterexample:
  "(case parseDrizzleAST draw_half ex_posts_ast of
      Success d \<Rightarrow> (map tbl_id (tables d), map rel_source (relationships d),
                    map rel_target (relationships d))
    | Failure message \<Rightarrow> ([], [], [])) =
   ([''posts''], [''posts'', ''posts''], [''users'', ''users''])"
  by code_simp

text \<open>
  Claim C5, amended. In the block dialect every relationship of a successful result has a
  source and a target that are ids of tables of the result (the fallback parser gives no
  relationship at all). In the fluent dialect the relationships are those of the relations
  declarations followed by those of the inline references (the fallback parser gives
  the latter only); the source of a relationship of an inline reference is the id of a
  table of the result. Its target, and both ends of a relationship of a relations
  declaration, are identifiers of the text that no step resolves against the tables.
\<close>

theorem C5_relationship_endpoints:
  "(parsePrismaSchema rnd schemaCode = Success d \<longrightarrow>
      list_all (\<lambda>r. rel_source r \<in> set (map tbl_id (tables d)) \<and>
                     rel_target r \<in> set (map tbl_id (tables d))) (relationships d)) \<and>
   (parsePrismaSchemaFallback rnd schemaCode = Success d \<longrightarrow> relationships d = []) \<and>
   (parseDrizzleAST rnd ast = Success d \<longrightarrow>
      relationships d = concat (map thirdPass (walkAST ast)) @ inlineRelationships (tables d) \<and>
      list_all (\<lambda>r. rel_source r \<in> set (map tbl_id (tables d))) (inlineRelationships (tables d))) \<and>
   (parseDrizzleSchemaFallback rnd schemaCode = Success d \<longrightarrow>
      relationships d = inlineRelationships (tables d) \<and>
      list_all (\<lambda>r. rel_source r \<in> set (map tbl_id (tables d))) (relationships d))"
proof (intro conjI impI)
  assume "parsePrismaSchema rnd schemaCode = Success d"
  then show "list_all (\<lambda>r. rel_source r \<in> set (map tbl_id (tables d)) \<and>
                     rel_target r \<in> set (map tbl_id (tables d))) (relationships d)"
    by (rule prisma_endpoints)
next
  assume "parsePrismaSchemaFallback rnd schemaCode = Success d"
  then show "relationships d = []"
    by (auto simp: parsePrismaSchemaFallback_def Let_def)
next
  assume "parseDrizzleAST rnd ast = Success d"
  then show "relationships d =
               concat (map thirdPass (walkAST ast)) @ inlineRelationships (tables d)"
    by (rule parseDrizzleAST_relationships)
next
  show "list_all (\<lambda>r. rel_source r \<in> set (map tbl_id (tables d)))
          (inlineRelationships (tables d))"
    by (rule inline_sources)
next
  assume fb: "parseDrizzleSchemaFallback rnd schemaCode = Success d"
  then show rels: "relationships d = inlineRelationships (tables d)"
    by (auto simp: parseDrizzleSchemaFallback_def Let_def)
  show "list_all (\<lambda>r. rel_source r \<in> set (map tbl_id (tables d))) (relationships d)"
    unfolding rels by (rule inline_sources)
qed

theorem C5_relationship_endpoints_witness:
  "(\<exists>d. parsePrismaSchema draw_half blog_schema = Success d \<and>
         map tbl_id (tables d) = [''User'', ''Post''] \<and>
         map (\<lambda>r. (rel_source r, rel_target r)) (relationships d) = [(''Post'', ''User'')] \<and>
         list_all (\<lambda>r. rel_source r \<in> set (map tbl_id (tables d)) \<and>
                        rel_target r \<in> set (map tbl_id (tables d))) (relationships d)) \<and>
   (\<exists>d. parseDrizzleAST draw_half ex_posts_ast = Success d \<and>
         map tbl_id (tables d) = [''posts''] \<and>
         map rel_source (inlineRelationships (tables d)) = [''posts''] \<and>
         list_all (\<lambda>r. rel_source r \<in> set (map tbl_id (tables d)))
           (inlineRelationships (tables d)))"
proof
  have "(case parsePrismaSchema draw_half blog_schema of
           Success d \<Rightarrow> (map tbl_id (tables d),
                         map (\<lambda>r. (rel_source r, rel_target r)) (relationships d))
         | Failure message \<Rightarrow> ([], [])) =
        ([''User'', ''Post''], [(''Post'', ''User'')])"
    by code_simp
  then obtain d where d: "parsePrismaSchema draw_half blog_schema = Success d"
    and ids: "map tbl_id (tables d) = [''User'', ''Post'']"
    and rels: "map (\<lambda>r. (rel_source r, rel_target r)) (relationships d) = [(''Post'', ''User'')]"
    by (cases "parsePrismaSchema draw_half blog_schema") auto
  have "list_all (\<lambda>r. rel_source r \<in> set (map tbl_id (tables d)) \<and>
                       rel_target r \<in> set (map tbl_id (tables d))) (relationships d)"
    using C5_relationship_endpoints [of draw_half blog_schema d] d by blast
  with d ids rels
  show "\<exists>d. parsePrismaSchema draw_half blog_schema = Success d \<and>
         map tbl_id (tables d) = [''User'', ''Post''] \<and>
         map (\<lambda>r. (rel_source r, rel_target r)) (relationships d) = [(''Post'', ''User'')] \<and>
         list_all (\<lambda>r. rel_source r \<in> set (map tbl_id (tables d)) \<and>
                        rel_target r \<in> set (map tbl_id (tables d))) (relationships d)"
    by (intro exI [of _ d]) simp
next
  have "(case parseDrizzleAST draw_half ex_posts_ast of
           Success d \<Rightarrow> (map tbl_id (tables d), map rel_source (inlineRelationships (tables d)))
         | Failure message \<Rightarrow> ([], [])) =
        ([''posts''], [''posts''])"
    by code_simp
  then obtain d where d: "parseDrizzleAST draw_half ex_posts_ast = Success d"
    and ids: "map tbl_id (tables d) = [''posts'']"
    and srcs: "map rel_source (inlineRelationships (tables d)) = [''posts'']"
    by (cases "parseDrizzleAST draw_half ex_posts_ast") auto
  have "list_all (\<lambda>r. rel_source r \<in> set (map tbl_id (tables d)))
          (inlineRelationships (tables d))"
    using C5_relationship_endpoints [of draw_half _ d ex_posts_ast] d by blast
  with d ids srcs
  show "\<exists>d. parseDrizzleAST draw_half ex_posts_ast = Success d \<and>
         map tbl_id (tables d) = [''posts''] \<and>
         map rel_source (inlineRelationships (tables d)) = [''posts''] \<and>
         list_all (\<lambda>r. rel_source r \<in> set (map tbl_id (tables d)))
           (inlineRelationships (tables d))"
    by (intro exI [of _ d]) simp
qed

subsection \<open>Fluent dialect: inline references\<close>

lemma unwindChain_methodCall:
  "unwindChain (methodCall e call) acc = unwindChain e (fst call # acc)"
  by (simp add: methodCall_def)

lemma unwindChain_chainOf:
  "unwindChain (chainOf base calls) acc = unwindChain base (map fst calls @ acc)"
proof (induction calls arbitrary: acc rule: rev_induct)
  case Nil
  then show ?case by (simp add: chainOf_def)
next
  case (snoc call calls)
  have "chainOf base (calls @ [call]) = methodCall (chainOf base calls) call"
    by (simp add: chainOf_def)
  then show ?case
    by (simp add: unwindChain_methodCall snoc.IH)
qed

lemma unwindChain_keeps:
  "set acc \<subseteq> set (fst (unwindChain e acc))"
  by (induction e acc rule: unwindChain.induct) auto

lemma references_in_chain:
  "''references'' \<in> set (fst (unwindChain (chainOf base (inner @ (''references'', args) # outer)) []))"
proof -
  have "''references'' \<in> set (map fst (inner @ (''references'', args) # outer) @ [])"
    by simp
  then show ?thesis
    unfolding unwindChain_chainOf using unwindChain_keeps by blast
qed

lemma parseReferences_methodCall:
  "parseReferencesFromAST (methodCall e call) =
     (if fst call = ''references'' \<and> length (snd call) > 0
      then (case hd (snd call) of
              ArrowFunctionExpression params (MemberExpression (Identifier tableName)
                                                               (Identifier columnName)) \<Rightarrow>
                Some \<lparr> ref_table = tableName, ref_column = columnName \<rparr>
            | _ \<Rightarrow> None)
      else parseReferencesFromAST e)"
  by (simp add: methodCall_def)

lemma parseReferences_chainOf:
  assumes "''references'' \<notin> fst ` set outer"
  shows "parseReferencesFromAST
           (chainOf base
              (inner @
               (''references'',
                ArrowFunctionExpression params (MemberExpression (Identifier other) (Identifier col))
                # others) # outer)) =
         Some \<lparr> ref_table = other, ref_column = col \<rparr>"
  using assms
proof (induction outer rule: rev_induct)
  case Nil
  have "chainOf base
          (inner @
           [(''references'',
             ArrowFunctionExpression params (MemberExpression (Identifier other) (Identifier col))
             # others)]) =
        methodCall (chainOf base inner)
          (''references'',
           ArrowFunctionExpression params (MemberExpression (Identifier other) (Identifier col))
           # others)"
    by (simp add: chainOf_def)
  then show ?case
    by (simp add: parseReferences_methodCall)
next
  case (snoc call outer)
  let ?calls = "inner @
               (''references'',
                ArrowFunctionExpression params (MemberExpression (Identifier other) (Identifier col))
                # others) # outer"
  have "chainOf base (?calls @ [call]) = methodCall (chainOf base ?calls) call"
    by (simp add: chainOf_def)
  moreover have "fst call \<noteq> ''references''"
    using snoc.prems by auto
  moreover have "''references'' \<notin> fst ` set outer"
    using snoc.prems by auto
  ultimately show ?case
    using snoc.IH by (simp add: parseReferences_methodCall)
qed

lemma parseColumn_with_reference:
  assumes "''references'' \<notin> fst ` set outer"
    and "parseColumnFromAST
           (Property (Identifier c)
              (chainOf base
                 (inner @
                  (''references'',
                   ArrowFunctionExpression params
                     (MemberExpression (Identifier other) (Identifier col))
                   # others) # outer))) = Some column"
  shows "col_name column = c \<and>
         col_references column = Some \<lparr> ref_table = other, ref_column = col \<rparr>"
proof -
  let ?e = "chainOf base
                 (inner @
                  (''references'',
                   ArrowFunctionExpression params
                     (MemberExpression (Identifier other) (Identifier col))
                   # others) # outer)"
  obtain chain root where u: "unwindChain ?e [] = (chain, root)"
    by (cases "unwindChain ?e []")
  have "''references'' \<in> set chain"
    using references_in_chain [of base inner _ outer] u by (metis fst_conv)
  then show ?thesis
    using assms(2) parseReferences_chainOf [OF assms(1), of base inner params other col others]
    by (auto simp: parseColumnFromAST_def u Let_def split: prod.splits)
qed

lemma inline_member:
  assumes "t \<in> set tbls" and "column \<in> set (tbl_columns t)"
    and "col_references column = Some r"
  shows "\<lparr> rel_id = generateRelationshipId (tbl_id t) (col_name column) (ref_table r),
            rel_source = tbl_id t, rel_target = ref_table r,
            sourceColumn = col_name column, targetColumn = ref_column r \<rparr>
         \<in> set (inlineRelationships tbls)"
proof -
  let ?r = "\<lparr> rel_id = generateRelationshipId (tbl_id t) (col_name column) (ref_table r),
              rel_source = tbl_id t, rel_target = ref_table r,
              sourceColumn = col_name column, targetColumn = ref_column r \<rparr>"
  have "?r \<in> set (columnRelationship t column)"
    by (simp add: columnRelationship_def assms(3))
  then have "?r \<in> set (concat (map (columnRelationship t) (tbl_columns t)))"
    using assms(2) by auto
  then show ?thesis
    using assms(1) unfolding inlineRelationships_def by auto
qed

lemma columnRelationship_length:
  "length (concat (map (columnRelationship t) cs)) =
   length (filter (\<lambda>c. col_references c \<noteq> None) cs)"
  by (induction cs) (auto simp: columnRelationship_def split: option.splits)

lemma inline_length:
  "length (inlineRelationships tbls) =
   sum_list (map (\<lambda>t. length (filter (\<lambda>c. col_references c \<noteq> None) (tbl_columns t))) tbls)"
  by (induction tbls) (simp_all add: inlineRelationships_def columnRelationship_length)

text \<open>
  Claim C1 says that a column with an inline reference gives exactly one relationship with
  its id. The output holds two of them when a relations declaration describes the same
  link: the parser keeps both. And of two \<open>references\<close> calls in one chain only the last
  counts: the column \<open>y\<close> below refers to \<open>b.id\<close>, not to \<open>a.id\<close>.
\<close>

theorem C1_counterexample:
  "(case parseDrizzleAST draw_half ex_posts_ast of
      Success d \<Rightarrow> map rel_id (relationships d)
    | Failure message \<Rightarrow> []) =
     [''rel-posts-authorId-users'', ''rel-posts-authorId-users''] \<and>
   map_option col_references (parseColumnFromAST ex_two_references) =
     Some (Some \<lparr> ref_table = ''b'', ref_column = ''id'' \<rparr>)"
proof
  show "(case parseDrizzleAST draw_half ex_posts_ast of
      Success d \<Rightarrow> map rel_id (relationships d)
    | Failure message \<Rightarrow> []) =
     [''rel-posts-authorId-users'', ''rel-posts-authorId-users'']"
    by code_simp
  show "map_option col_references (parseColumnFromAST ex_two_references) =
     Some (Some \<lparr> ref_table = ''b'', ref_column = ''id'' \<rparr>)"
    by code_simp
qed

text \<open>
  Claim C1, amended. Let the structural passes succeed on a syntax tree, let \<open>t\<close> be a
  table of the result and \<open>column\<close> one of its columns, parsed from a property \<open>c\<close> whose
  chain of method calls has \<open>.references(() => other.col)\<close> as its last \<open>references\<close>
  call. Then the column is named \<open>c\<close> and refers to \<open>other.col\<close>, and the relationship
  with id \<open>rel-t-c-other\<close>, source \<open>t\<close>, target \<open>other\<close>, source column \<open>c\<close> and target
  column \<open>col\<close> is in the output. The relationships of the output are those of the
  relations declarations followed by those of the inline references, and the latter
  are exactly one for every column with a reference.
\<close>

theorem C1_reference_synthesis:
  assumes ok: "parseDrizzleAST rnd ast = Success d"
    and tbl: "t \<in> set (tables d)"
    and col: "column \<in> set (tbl_columns t)"
    and parsed: "parseColumnFromAST
                   (Property (Identifier c)
                      (chainOf base
                         (inner @
                          (''references'',
                           ArrowFunctionExpression params
                             (MemberExpression (Identifier other) (Identifier col))
                           # others) # outer))) = Some column"
    and last: "''references'' \<notin> fst ` set outer"
  shows "col_name column = c \<and>
         col_references column = Some \<lparr> ref_table = other, ref_column = col \<rparr> \<and>
         \<lparr> rel_id = ''rel-'' @ tbl_id t @ ''-'' @ c @ ''-'' @ other,
            rel_source = tbl_id t, rel_target = other,
            sourceColumn = c, targetColumn = col \<rparr> \<in> set (relationships d) \<and>
         relationships d =
           concat (map thirdPass (walkAST ast)) @ inlineRelationships (tables d) \<and>
         length (inlineRelationships (tables d)) =
           sum_list (map (\<lambda>t. length (filter (\<lambda>c. col_references c \<noteq> None) (tbl_columns t)))
                         (tables d))"
proof -
  have column: "col_name column = c \<and>
                col_references column = Some \<lparr> ref_table = other, ref_column = col \<rparr>"
    using parseColumn_with_reference [OF last parsed] .
  have rels: "relationships d =
                concat (map thirdPass (walkAST ast)) @ inlineRelationships (tables d)"
    using ok by (rule parseDrizzleAST_relationships)
  have "\<lparr> rel_id = generateRelationshipId (tbl_id t) (col_name column)
                     (ref_table \<lparr> ref_table = other, ref_column = col \<rparr>),
          rel_source = tbl_id t, rel_target = ref_table \<lparr> ref_table = other, ref_column = col \<rparr>,
          sourceColumn = col_name column,
          targetColumn = ref_column \<lparr> ref_table = other, ref_column = col \<rparr> \<rparr>
        \<in> set (inlineRelationships (tables d))"
    using tbl col column by (intro inline_member) simp_all
  then have "\<lparr> rel_id = ''rel-'' @ tbl_id t @ ''-'' @ c @ ''-'' @ other,
            rel_source = tbl_id t, rel_target = other,
            sourceColumn = c, targetColumn = col \<rparr> \<in> set (relationships d)"
    using column rels by (simp add: generateRelationshipId_def)
  with column rels inline_length show ?thesis
    by simp
qed

theorem C1_reference_synthesis_witness:
  "\<exists>d t. parseDrizzleAST draw_half ex_posts_ast = Success d \<and>
          tables d = [t] \<and> tbl_id t = ''posts'' \<and> tbl_columns t = [ex_author_column] \<and>
          parseColumnFromAST
            (Property (Identifier ''authorId'')
               (chainOf (CallExpression (Identifier ''integer'') [Literal (LStr ''author_id'')])
                  [(''references'',
                    [ArrowFunctionExpression []
                       (MemberExpression (Identifier ''users'') (Identifier ''id''))])])) =
            Some ex_author_column \<and>
          \<lparr> rel_id = ''rel-posts-authorId-users'', rel_source = ''posts'', rel_target = ''users'',
            sourceColumn = ''authorId'', targetColumn = ''id'' \<rparr> \<in> set (relationships d)"
proof -
  have "(case parseDrizzleAST draw_half ex_posts_ast of
           Success d \<Rightarrow> map (\<lambda>t. (tbl_id t, tbl_columns t)) (tables d)
         | Failure message \<Rightarrow> []) = [(''posts'', [ex_author_column])]"
    by code_simp
  then obtain d t where d: "parseDrizzleAST draw_half ex_posts_ast = Success d"
    and t: "tables d = [t]" "tbl_id t = ''posts''" "tbl_columns t = [ex_author_column]"
    by (cases "parseDrizzleAST draw_half ex_posts_ast") auto
  have parsed: "parseColumnFromAST
            (Property (Identifier ''authorId'')
               (chainOf (CallExpression (Identifier ''integer'') [Literal (LStr ''author_id'')])
                  ([] @
                   (''references'',
                    ArrowFunctionExpression []
                      (MemberExpression (Identifier ''users'') (Identifier ''id'')) # [])
                   # []))) =
            Some ex_author_column"
    by code_simp
  have h1: "t \<in> set (tables d)"
    by (simp add: t)
  have h2: "ex_author_column \<in> set (tbl_columns t)"
    by (simp add: t)
  have h3: "''references'' \<notin> fst ` set ([] :: (string \<times> node list) list)"
    by simp
  have "\<lparr> rel_id = ''rel-posts-authorId-users'', rel_source = ''posts'', rel_target = ''users'',
          sourceColumn = ''authorId'', targetColumn = ''id'' \<rparr> \<in> set (relationships d)"
    using conjunct1 [OF conjunct2 [OF conjunct2 [OF C1_reference_synthesis [OF d h1 h2 parsed h3]]]]
    by (simp add: t(2))
  with d t parsed show ?thesis
    by (intro exI [of _ d] exI [of _ t]) simp
qed

subsection \<open>The types of columns\<close>

lemma rx_search_at:
  "rx_search r pos s = Some m \<Longrightarrow> \<exists>pos' s'. rx_at r pos' s' = Some m"
  by (induction s arbitrary: pos) (auto split: option.splits)

lemma rx_at_run:
  "rx_at r pos s = Some m \<Longrightarrow> \<exists>st \<in> set (rx_run r (pos, s, [])). snd m = snd (snd st)"
  by (auto simp: rx_at_def split: list.splits)

lemma rx_run_Seq: "rx_run (Seq a b) st = concat (map (rx_run b) (rx_run a st))"
  by simp

lemma plus_word_results:
  assumes "st \<in> set (rx_run (Group 1 (Plus Word)) (pos, s, []))"
  shows "\<exists>g. snd (snd st) = [(1, g)] \<and> g \<noteq> []"
  using assms length_takeWhile_le [of "cls_mem Word" s] by auto

lemma native_type_results:
  assumes "st \<in> set (rx_run nativeTypeRegex (pos, s, []))"
  shows "\<exists>g. map_of (snd (snd st)) 1 = Some g \<and> g \<noteq> []"
proof -
  have "\<exists>st1 \<in> set (rx_run (Group 1 (Plus Word)) (pos, s, [])).
          st \<in> set (rx_run (Opt (Seq (Lit ''('')
                     (Seq (Group 2 (Plus (Neg (Chars '')'')))) (Lit '')'')))) st1)"
    using assms unfolding nativeTypeRegex_def seqs.simps rx_run_Seq set_concat set_map
    by blast
  then obtain st1 where st1: "st1 \<in> set (rx_run (Group 1 (Plus Word)) (pos, s, []))"
    and st: "st \<in> set (rx_run (Opt (Seq (Lit ''('')
                     (Seq (Group 2 (Plus (Neg (Chars '')'')))) (Lit '')'')))) st1)"
    by blast
  obtain g where g: "snd (snd st1) = [(1, g)]" "g \<noteq> []"
    using plus_word_results [OF st1] by blast
  obtain p1 r1 where s1: "st1 = (p1, r1, [(1, g)])"
    using g by (cases st1) auto
  have "snd (snd st) = [(1, g)] \<or> (\<exists>h. snd (snd st) = [(2, h), (1, g)])"
    using st unfolding s1 by (auto split: if_splits)
  with g show ?thesis by auto
qed

lemma native_type_group:
  assumes "rx_match nativeTypeRegex s = Some m"
  shows "grp_str m 1 \<noteq> []"
proof -
  obtain pos' s' where "rx_at nativeTypeRegex pos' s' = Some m"
    using assms rx_search_at unfolding rx_match_def by blast
  then obtain st where "st \<in> set (rx_run nativeTypeRegex (pos', s', []))"
    and "snd m = snd (snd st)"
    using rx_at_run by blast
  then show ?thesis
    using native_type_results [of st pos' s'] by (auto simp: grp_str_def grp_def)
qed

lemma toLowerCase_empty: "(toLowerCase s = []) = (s = [])"
  by (simp add: toLowerCase_def)

lemma prisma_mapping_values:
  "js_get PRISMA_TYPE_MAPPING k = Own t \<Longrightarrow> t \<noteq> []"
  by (auto simp: js_get_def PRISMA_TYPE_MAPPING_def split: if_splits)

lemma js_get_inherited:
  "js_get object k = Inherited n \<Longrightarrow> n = k"
  by (auto simp: js_get_def split: option.splits if_splits)

lemma type_mapping_values:
  "js_get typeMapping k = Own t \<Longrightarrow> t \<noteq> []"
  by (auto simp: js_get_def typeMapping_def split: if_splits)

lemma member_string_nonempty: "member_string n \<noteq> []"
  by (simp add: member_string_def)

lemma js_get_empty_name: "js_get typeMapping [] = Undefined"
  by (simp add: js_get_def typeMapping_def inheritedNames_def)

lemma fluent_column_type:
  "\<exists>column. parseColumnFromAST (Property (Identifier c) e) = Some column \<and>
     (\<forall>name args. snd (unwindChain e []) = CallExpression (Identifier name) args \<longrightarrow>
        name \<noteq> [] \<longrightarrow> (\<exists>s. col_type column = TypeName s \<and> s \<noteq> [])) \<and>
     ((\<forall>name args. snd (unwindChain e []) \<noteq> CallExpression (Identifier name) args) \<longrightarrow>
        col_type column = TypeName [])"
proof -
  obtain chain root where u: "unwindChain e [] = (chain, root)"
    by (cases "unwindChain e []")
  define base where
    "base = (case root of
               CallExpression (Identifier name) args \<Rightarrow> (name, concat (map columnArg args))
             | _ \<Rightarrow> ([], []))"
  obtain columnType columnArgs where b: "base = (columnType, columnArgs)"
    by (cases base)
  have shape: "(\<exists>name args. root = CallExpression (Identifier name) args \<and> columnType = name) \<or>
               ((\<forall>name args. root \<noteq> CallExpression (Identifier name) args) \<and>
                columnType = [] \<and> columnArgs = [])"
    using b unfolding base_def by (auto split: node.splits)
  define displayType where
    "displayType = (case js_get typeMapping columnType of
                      Own t \<Rightarrow> t | Inherited n \<Rightarrow> member_string n | Undefined \<Rightarrow> columnType)"
  have display: "columnType \<noteq> [] \<Longrightarrow> displayType \<noteq> []"
    unfolding displayType_def
    by (cases "js_get typeMapping columnType")
       (auto simp: type_mapping_values member_string_nonempty)
  have display0: "columnType = [] \<Longrightarrow> displayType = []"
    unfolding displayType_def by (simp add: js_get_empty_name)
  have "\<exists>column. parseColumnFromAST (Property (Identifier c) e) = Some column \<and>
          col_type column =
            TypeName (displayType @
                      (if length columnArgs > 0 then ''('' @ join '', '' columnArgs @ '')''
                       else []))"
    using b by (simp add: parseColumnFromAST_def u Let_def base_def displayType_def)
  then obtain column where column: "parseColumnFromAST (Property (Identifier c) e) = Some column"
    and ty: "col_type column =
            TypeName (displayType @
                      (if length columnArgs > 0 then ''('' @ join '', '' columnArgs @ '')''
                       else []))"
    by blast
  show ?thesis
    using column ty shape display display0 u by (intro exI [of _ column]) auto
qed

lemma block_column_type:
  "\<exists>column. convertFieldToColumn field enms = Some column \<and>
     (fld_type field \<noteq> [] \<longrightarrow>
        (\<exists>s. col_type column = TypeName s \<and> s \<noteq> []) \<or>
        col_type column = InheritedMember (fld_type field))"
proof -
  define good where
    "good v = (fld_type field \<noteq> [] \<longrightarrow>
                 (\<exists>s. v = TypeName s \<and> s \<noteq> []) \<or> v = InheritedMember (fld_type field))" for v
  define d0 where
    "d0 = (case js_get PRISMA_TYPE_MAPPING (fld_type field) of
             Own t \<Rightarrow> TypeName t
           | Inherited n \<Rightarrow> InheritedMember n
           | Undefined \<Rightarrow> TypeName (toLowerCase (fld_type field)))"
  define d1 where
    "d1 = (if list_ex (\<lambda>e. enum_name e = fld_type field) enms
           then TypeName (''enum('' @ fld_type field @ '')'') else d0)"
  define d2 where
    "d2 = (if fld_isArray field then TypeName (typeval_string d1 @ ''[]'') else d1)"
  define d3 where
    "d3 = (case find_attr ''db'' field of
               None \<Rightarrow> d2
             | Some a \<Rightarrow>
                 (case attr_args a of
                    [] \<Rightarrow> d2
                  | nativeType # _ \<Rightarrow>
                      (case rx_match nativeTypeRegex nativeType of
                         None \<Rightarrow> d2
                       | Some m \<Rightarrow>
                           (case grp m 2 of
                              None \<Rightarrow> TypeName (toLowerCase (grp_str m 1))
                            | Some typeArgs \<Rightarrow>
                                if typeArgs = [] then TypeName (toLowerCase (grp_str m 1))
                                else TypeName (toLowerCase (grp_str m 1) @ ''('' @ typeArgs @ '')'')))))"
  define d4 where
    "d4 = (if find_attr ''id'' field \<noteq> None \<and> fld_type field = ''Int''
             then (case find_attr ''default'' field of
                     None \<Rightarrow> d3
                   | Some d \<Rightarrow>
                       if list_ex (\<lambda>arg. str_includes arg ''autoincrement'') (attr_args d)
                       then TypeName ''serial'' else d3)
             else d3)"
  have g0: "good d0"
    unfolding d0_def good_def
    by (cases "js_get PRISMA_TYPE_MAPPING (fld_type field)")
       (auto simp: prisma_mapping_values toLowerCase_empty dest: js_get_inherited)
  have g1: "good d1"
    using g0 unfolding d1_def good_def by auto
  have g2: "good d2"
    using g1 unfolding d2_def good_def by auto
  have g3: "good d3"
    using g2 native_type_group unfolding d3_def good_def
    by (auto simp: toLowerCase_empty split: option.splits list.splits)
  have g4: "good d4"
    using g3 unfolding d4_def good_def by (auto split: option.splits)
  have "\<exists>column. convertFieldToColumn field enms = Some column \<and> col_type column = d4"
    unfolding convertFieldToColumn_def Let_def d4_def d3_def d2_def d1_def d0_def by simp
  with g4 show ?thesis
    unfolding good_def by blast
qed

text \<open>
  Claim C6, refuted as stated. A column of a successful result can have the empty string
  as its type: the block-dialect model \<open>model A { x ? @relation }\<close> yields the column
  \<open>x\<close> with the empty type, and the fluent-dialect table
  \<open>pgTable('t', { id: someVar })\<close> yields the column \<open>id\<close> with the empty type.
\<close>

theorem C6_counterexample:
  "(case parsePrismaSchema draw_half untyped_field_schema of
      Success d \<Rightarrow>
        map (\<lambda>t. (tbl_name t, map (\<lambda>c. (col_name c, col_type c)) (tbl_columns t))) (tables d)
    | Failure message \<Rightarrow> []) = [(''A'', [(''x'', TypeName [])])] \<and>
   (case parseDrizzleAST draw_half ex_untyped_ast of
      Success d \<Rightarrow>
        map (\<lambda>t. (tbl_name t, map (\<lambda>c. (col_name c, col_type c)) (tbl_columns t))) (tables d)
    | Failure message \<Rightarrow> []) = [(''t'', [(''id'', TypeName [])])]"
  by code_simp

text \<open>
  Claim C6, corrected. The fluent column builder returns a column for every property whose
  key is an identifier, whatever its value: the type of the column is a non-empty string
  when the call chain of the value starts at a call of an identifier with a non-empty name,
  and the empty string when it does not start at a call of an identifier. The block column
  builder returns a column for every field: when the type name of the field is not empty,
  the type of the column is a non-empty string, or it is the member of that name that the
  type mapping inherits as an object.
\<close>

theorem C6_column_types:
  "(\<exists>column. parseColumnFromAST (Property (Identifier c) e) = Some column \<and>
      (\<forall>name args. snd (unwindChain e []) = CallExpression (Identifier name) args \<longrightarrow>
         name \<noteq> [] \<longrightarrow> (\<exists>s. col_type column = TypeName s \<and> s \<noteq> [])) \<and>
      ((\<forall>name args. snd (unwindChain e []) \<noteq> CallExpression (Identifier name) args) \<longrightarrow>
         col_type column = TypeName [])) \<and>
   (\<exists>column. convertFieldToColumn field enms = Some column \<and>
      (fld_type field \<noteq> [] \<longrightarrow>
         (\<exists>s. col_type column = TypeName s \<and> s \<noteq> []) \<or>
         col_type column = InheritedMember (fld_type field)))"
  by (rule conjI [OF fluent_column_type block_column_type])

theorem C6_column_types_witness:
  "parseField ''id String @id'' = Some ex_id_field \<and>
   (\<exists>column. parseColumnFromAST ex_serial_property = Some column \<and>
      col_type column = TypeName ''serial(id)'') \<and>
   (\<exists>column. convertFieldToColumn ex_id_field [] = Some column \<and>
      col_type column = TypeName ''text'')"
proof -
  define e where
    "e = CallExpression
           (MemberExpression (CallExpression (Identifier ''serial'') [Literal (LStr ''id'')])
              (Identifier ''primaryKey''))
           []"
  have parsed: "parseField ''id String @id'' = Some ex_id_field"
    by code_simp
  have shape: "ex_serial_property = Property (Identifier ''id'') e"
    by (simp add: ex_serial_property_def e_def)
  have root: "snd (unwindChain e []) =
              CallExpression (Identifier ''serial'') [Literal (LStr ''id'')]"
    unfolding e_def by code_simp
  have name: "fld_type ex_id_field \<noteq> []"
    by (simp add: ex_id_field_def)
  have fluent: "map_option col_type (parseColumnFromAST ex_serial_property) =
                Some (TypeName ''serial(id)'')"
    by code_simp
  have block: "map_option col_type (convertFieldToColumn ex_id_field []) =
               Some (TypeName ''text'')"
    by code_simp
  obtain c1 where c1: "parseColumnFromAST (Property (Identifier ''id'') e) = Some c1"
    and t1: "\<exists>s. col_type c1 = TypeName s \<and> s \<noteq> []"
    using C6_column_types [of "''id''" e ex_id_field "[]"] root by auto
  obtain c2 where c2: "convertFieldToColumn ex_id_field [] = Some c2"
    and t2: "(\<exists>s. col_type c2 = TypeName s \<and> s \<noteq> []) \<or>
             col_type c2 = InheritedMember (fld_type ex_id_field)"
    using C6_column_types [of "''id''" e ex_id_field "[]"] name by auto
  have "col_type c1 = TypeName ''serial(id)''"
    using fluent c1 shape by simp
  moreover have "col_type c2 = TypeName ''text''"
    using block c2 by simp
  ultimately show ?thesis
    using parsed c1 c2 shape by simp
qed

end
